theory Spec2Isabelle
  imports Complex_Main "HOL-Library.Log_Nat"
begin

section \<open>Values, money and the stored rows\<close>

text \<open>
  The backend \<^verbatim>\<open>src/db.js\<close> keeps everything in five tables. A user row carries a
  balance and the ledger, a JSON array of transactions stored newest first in the column
  \<^verbatim>\<open>transactions_history\<close>. Money is a JavaScript number, a binary64 value, which is a
  rational number: a number is modelled by its exact value. Arithmetic on amounts is taken
  exactly, except the product that gives the commission, which is rounded to binary64 as
  the machine rounds it (\<open>js_mul\<close> below). Time enters every handler as the parameter
  \<open>now\<close>, the value of \<^verbatim>\<open>Date.now()\<close> in milliseconds.
\<close>

text \<open>A transaction id is either a number (\<^verbatim>\<open>Date.now()\<close>) or a string (\<^verbatim>\<open>#ORD-...\<close>).\<close>

datatype js_value = JNum int | JStr string

definition digit_char :: "nat \<Rightarrow> char" where
  "digit_char k = ''0123456789'' ! k"

fun dec_digits :: "nat \<Rightarrow> string" where
  "dec_digits n =
     (if n < 10 then [digit_char n]
      else dec_digits (n div 10) @ [digit_char (n mod 10)])"

declare dec_digits.simps [simp del]

text \<open>\<^verbatim>\<open>String(v)\<close>: a string is itself, an integer is its decimal numeral.\<close>

fun String :: "js_value \<Rightarrow> string" where
  "String (JStr s) = s"
| "String (JNum n) = (if n < 0 then CHR ''-'' # dec_digits (nat (- n)) else dec_digits (nat n))"

text \<open>
  \<^verbatim>\<open>parseFloat(x.toFixed(2))\<close>: the nearest multiple of 0.01, a tie going to the larger
  magnitude (\<^verbatim>\<open>toFixed\<close> rounds the absolute value and keeps the sign).
\<close>

definition toFixed2 :: "rat \<Rightarrow> rat" where
  "toFixed2 x =
     (if x < 0 then - (of_int \<lfloor>(- x) * 100 + 1 / 2\<rfloor> / 100)
      else of_int \<lfloor>x * 100 + 1 / 2\<rfloor> / 100)"

text \<open>
  The binary64 value nearest to a rational, a tie going to the even significand: the value
  of a decimal literal such as \<^verbatim>\<open>0.15\<close>, and the result of an arithmetic operation on
  two numbers. The significand has 53 bits; the exponent is not bounded, so overflow and
  subnormal numbers, far from any amount of money, are not modelled.
\<close>

definition round_half_even :: "rat \<Rightarrow> int" where
  "round_half_even x =
     (let f = \<lfloor>x\<rfloor>; r = x - of_int f
      in if r < 1 / 2 then f else if 1 / 2 < r then f + 1 else if even f then f else f + 1)"

definition floor_log2 :: "rat \<Rightarrow> int" where
  "floor_log2 x = (if 1 \<le> x then bitlen \<lfloor>x\<rfloor> - 1 else - bitlen (\<lceil>1 / x\<rceil> - 1))"

definition fl :: "rat \<Rightarrow> rat" where
  "fl x =
     (if x = 0 then 0
      else
        let e = floor_log2 \<bar>x\<bar> - 52;
            m = round_half_even (\<bar>x\<bar> / 2 powi e)
        in sgn x * of_int m * 2 powi e)"

text \<open>The product \<^verbatim>\<open>x * y\<close> of two numbers.\<close>

definition js_mul :: "rat \<Rightarrow> rat \<Rightarrow> rat" where
  "js_mul x y = fl (x * y)"

record tx_details =
  productName :: string
  purchaseDate :: "int option"
  duration :: "string option"
  fullCredentials :: "nat list"
  delivery :: string
  supportMessage :: "string option"

text \<open>
  \<open>purchaseDate\<close> is the stored \<^verbatim>\<open>dd/mm/yyyy\<close> string read back the way the support handler
  reads it, \<^verbatim>\<open>new Date(year, month - 1, day).getTime()\<close>: midnight of the purchase day in
  milliseconds, \<open>None\<close> when the field is missing. \<open>fullCredentials\<close> keeps the
  \<^verbatim>\<open>stockId\<close> of each delivered credential.
\<close>

record tx =
  tx_id :: js_value
  amount :: rat
  tx_type :: string
  status :: string
  orderCode :: "string option"
  details :: "tx_details option"

record user =
  username :: string
  balance :: rat
  role :: string
  transactions_history :: "tx list"
  referred_by_user_id :: "nat option"
  premium_expires_at :: "int option"

record stock_data =
  data_status :: string
  quantity :: "int option"
  price_sold_per_unit :: "rat option"

text \<open>
  \<open>quantity\<close> is \<^verbatim>\<open>parseInt(data.quantity)\<close>, \<open>None\<close> when that is \<^verbatim>\<open>NaN\<close> (the field is
  missing or not a number).
\<close>

record stock_row =
  stock_id :: nat
  product_id :: nat
  provider_user_id :: nat
  data :: stock_data
  is_sold :: bool
  sold_to_user_id :: "nat option"

record product =
  prod_id :: nat
  name :: string
  platform :: string
  stock :: int
  prod_duration :: string
  prod_delivery :: string
  creator_user_id :: nat

record withdrawal =
  w_id :: nat
  w_user_id :: nat
  amount_original :: rat
  amount_final :: rat
  w_status :: string

record db =
  users :: "(nat \<times> user) list"
  products :: "product list"
  product_stock :: "stock_row list"
  stock_seq :: nat
  withdrawals :: "withdrawal list"
  withdrawals_seq :: nat
  withdrawal_fee :: "rat option"

text \<open>
  \<open>stock_seq\<close> and \<open>withdrawals_seq\<close> are the \<^verbatim>\<open>AUTOINCREMENT\<close> counters: an insert takes
  the next number. \<open>withdrawal_fee\<close> is the row of the settings table, \<open>None\<close> when absent.
\<close>

datatype reply =
    Success
  | InvalidInput
  | UserNotFound
  | ProductNotFound
  | TxNotFound
  | WithdrawalNotFound
  | InsufficientBalance
  | InsufficientStock
  | DuplicateRequest
  | AlreadyProcessed
  | NothingToRefund
  | InternalError

text \<open>\<^verbatim>\<open>SELECT ... FROM users WHERE id = ?\<close> and \<^verbatim>\<open>UPDATE users SET ... WHERE id = ?\<close>.\<close>

definition select_user :: "db \<Rightarrow> nat \<Rightarrow> user option" where
  "select_user d uid = map_of (users d) uid"

definition update_user :: "nat \<Rightarrow> (user \<Rightarrow> user) \<Rightarrow> db \<Rightarrow> db" where
  "update_user uid f d =
     d\<lparr>users := map (\<lambda>(i, u). if i = uid then (i, f u) else (i, u)) (users d)\<rparr>"

section \<open>Approving and rejecting a recharge\<close>

text \<open>
  \<^verbatim>\<open>POST /admin/transaction/approve\<close>. The ledger entry is picked by
  \<^verbatim>\<open>tx.id === transactionId && tx.status === 'Pendiente'\<close>; \<^verbatim>\<open>history.map\<close> visits every
  entry, so \<^verbatim>\<open>amountToAdd\<close> ends as the amount of the last entry that matched.
\<close>

definition is_pending_target :: "js_value \<Rightarrow> tx \<Rightarrow> bool" where
  "is_pending_target transactionId t \<longleftrightarrow> tx_id t = transactionId \<and> status t = ''Pendiente''"

definition hasPreviousRecharges :: "tx list \<Rightarrow> bool" where
  "hasPreviousRecharges history =
     list_ex (\<lambda>t. status t = ''Completada'' \<and> tx_type t = ''credit'') history"

definition amountToAdd :: "js_value \<Rightarrow> tx list \<Rightarrow> rat" where
  "amountToAdd transactionId history =
     fold (\<lambda>t a. if is_pending_target transactionId t then amount t else a) history 0"

definition approve_history :: "js_value \<Rightarrow> tx list \<Rightarrow> tx list" where
  "approve_history transactionId history =
     map (\<lambda>t. if is_pending_target transactionId t then t\<lparr>status := ''Completada''\<rparr> else t)
       history"

text \<open>
  The rate is one of the literals \<^verbatim>\<open>0.15\<close>, \<^verbatim>\<open>0.10\<close>, \<^verbatim>\<open>0.00\<close>; the commission is
  \<^verbatim>\<open>parseFloat((amountToAdd * commissionRate).toFixed(2))\<close>.
\<close>

definition commissionRate :: "string \<Rightarrow> rat" where
  "commissionRate r =
     (if r = ''Distribuidor Premium'' then fl (15 / 100)
      else if r = ''distribuidor'' \<or> r = ''proveedor'' then fl (10 / 100)
      else 0)"

definition commission_of :: "rat \<Rightarrow> string \<Rightarrow> rat" where
  "commission_of a r = toFixed2 (js_mul a (commissionRate r))"

definition commissionTx :: "int \<Rightarrow> rat \<Rightarrow> tx" where
  "commissionTx now c =
     \<lparr>tx_id = JNum (now + 1), amount = c, tx_type = ''credit'', status = ''Completada'',
      orderCode = None, details = None\<rparr>"

text \<open>Step 4 of the handler, run on the state the user update has produced.\<close>

definition pay_commission :: "int \<Rightarrow> user \<Rightarrow> rat \<Rightarrow> db \<Rightarrow> db" where
  "pay_commission now usr a d =
     (case referred_by_user_id usr of
        None \<Rightarrow> d
      | Some referrerId \<Rightarrow>
          if referrerId \<noteq> 0 \<and> \<not> hasPreviousRecharges (transactions_history usr) then
            (case select_user d referrerId of
               None \<Rightarrow> d
             | Some referrer \<Rightarrow>
                 let commission = commission_of a (role referrer) in
                 if commission > 0 then
                   update_user referrerId
                     (\<lambda>u. u\<lparr>transactions_history :=
                               commissionTx now commission # transactions_history referrer,
                             balance := balance referrer + commission\<rparr>) d
                 else d)
          else d)"

definition admin_transaction_approve :: "int \<Rightarrow> nat \<Rightarrow> js_value \<Rightarrow> db \<Rightarrow> reply \<times> db" where
  "admin_transaction_approve now userId transactionId d =
     (case select_user d userId of
        None \<Rightarrow> (UserNotFound, d)
      | Some usr \<Rightarrow>
          let history = transactions_history usr in
          if \<not> list_ex (is_pending_target transactionId) history then (TxNotFound, d)
          else
            let a = amountToAdd transactionId history;
                d1 = update_user userId
                       (\<lambda>u. u\<lparr>transactions_history := approve_history transactionId history,
                               balance := balance usr + a\<rparr>) d
            in (Success, pay_commission now usr a d1))"

text \<open>\<^verbatim>\<open>POST /admin/transaction/reject\<close>: the same lookup, the status becomes \<^verbatim>\<open>Rechazada\<close>.\<close>

definition admin_transaction_reject :: "nat \<Rightarrow> js_value \<Rightarrow> db \<Rightarrow> reply \<times> db" where
  "admin_transaction_reject userId transactionId d =
     (case select_user d userId of
        None \<Rightarrow> (UserNotFound, d)
      | Some usr \<Rightarrow>
          let history = transactions_history usr in
          if \<not> list_ex (is_pending_target transactionId) history then (TxNotFound, d)
          else
            (Success,
             update_user userId
               (\<lambda>u. u\<lparr>transactions_history :=
                        map (\<lambda>t. if is_pending_target transactionId t
                                 then t\<lparr>status := ''Rechazada''\<rparr> else t) history\<rparr>) d))"

text \<open>\<^verbatim>\<open>POST /transaction/record\<close>: the given entry is put at the head of the ledger.\<close>

definition transaction_record :: "nat \<Rightarrow> tx \<Rightarrow> db \<Rightarrow> reply \<times> db" where
  "transaction_record userId transaction d =
     (if userId = 0 then (InvalidInput, d)
      else
        (case select_user d userId of
           None \<Rightarrow> (UserNotFound, d)
         | Some usr \<Rightarrow>
             (Success,
              update_user userId
                (\<lambda>u. u\<lparr>transactions_history := transaction # transactions_history usr\<rparr>) d)))"

section \<open>Withdrawals\<close>

text \<open>
  \<^verbatim>\<open>POST /supplier/withdraw\<close>. The amount is \<^verbatim>\<open>parseFloat(amount)\<close>; a value that is not a
  number is refused with the non-positive ones and is not modelled. The fee rate is the
  stored setting, 0.10 when the row is absent.
\<close>

definition fee_rate :: "db \<Rightarrow> rat" where
  "fee_rate d = (case withdrawal_fee d of Some v \<Rightarrow> v | None \<Rightarrow> 10 / 100)"

definition has_pending_withdrawal :: "db \<Rightarrow> nat \<Rightarrow> bool" where
  "has_pending_withdrawal d userId =
     list_ex (\<lambda>w. w_user_id w = userId \<and> w_status w = ''Pending'') (withdrawals d)"

definition insert_withdrawal :: "nat \<Rightarrow> rat \<Rightarrow> rat \<Rightarrow> db \<Rightarrow> db" where
  "insert_withdrawal userId original final d =
     d\<lparr>withdrawals := withdrawals d @
          [\<lparr>w_id = Suc (withdrawals_seq d), w_user_id = userId, amount_original = original,
            amount_final = final, w_status = ''Pending''\<rparr>],
       withdrawals_seq := Suc (withdrawals_seq d)\<rparr>"

definition supplier_withdraw :: "nat \<Rightarrow> rat \<Rightarrow> db \<Rightarrow> reply \<times> db" where
  "supplier_withdraw userId numericAmount d =
     (if numericAmount \<le> 0 then (InvalidInput, d)
      else if has_pending_withdrawal d userId then (DuplicateRequest, d)
      else
        (case select_user d userId of
           None \<Rightarrow> (UserNotFound, d)
         | Some usr \<Rightarrow>
             let currentBalance = balance usr;
                 requested = toFixed2 numericAmount;
                 available = toFixed2 currentBalance
             in if requested > available then (InsufficientBalance, d)
                else
                  let fee = numericAmount * fee_rate d;
                      finalAmount = numericAmount - fee;
                      newBalance = currentBalance - numericAmount;
                      d1 = insert_withdrawal userId numericAmount finalAmount d
                  in (Success, update_user userId (\<lambda>u. u\<lparr>balance := newBalance\<rparr>) d1)))"

text \<open>\<^verbatim>\<open>POST /supplier/withdraw/cancel\<close>.\<close>

definition supplier_withdraw_cancel :: "nat \<Rightarrow> nat \<Rightarrow> db \<Rightarrow> reply \<times> db" where
  "supplier_withdraw_cancel withdrawalId userId d =
     (case find (\<lambda>w. w_id w = withdrawalId \<and> w_user_id w = userId \<and> w_status w = ''Pending'')
             (withdrawals d) of
        None \<Rightarrow> (AlreadyProcessed, d)
      | Some w \<Rightarrow>
          let amountToReturn = amount_original w;
              d1 = d\<lparr>withdrawals := filter (\<lambda>w. w_id w \<noteq> withdrawalId) (withdrawals d)\<rparr>
          in (Success, update_user userId (\<lambda>u. u\<lparr>balance := balance u + amountToReturn\<rparr>) d1))"

text \<open>
  \<^verbatim>\<open>POST /admin/withdraw/manage\<close>. The user row is read after the status of the request
  has been written; \<^verbatim>\<open>providerRes.rows[0]\<close> of a missing user throws, and the handler
  answers 500 with the status already stored.
\<close>

definition set_withdrawal_status :: "nat \<Rightarrow> string \<Rightarrow> db \<Rightarrow> db" where
  "set_withdrawal_status withdrawalId s d =
     d\<lparr>withdrawals :=
         map (\<lambda>w. if w_id w = withdrawalId then w\<lparr>w_status := s\<rparr> else w) (withdrawals d)\<rparr>"

definition withdrawalTx :: "int \<Rightarrow> rat \<Rightarrow> tx" where
  "withdrawalTx now a =
     \<lparr>tx_id = JNum (now + 1), amount = a, tx_type = ''debit'', status = ''Completada'',
      orderCode = None, details = None\<rparr>"

definition withdrawalRefundTx :: "int \<Rightarrow> rat \<Rightarrow> tx" where
  "withdrawalRefundTx now a =
     \<lparr>tx_id = JNum (now + 2), amount = a, tx_type = ''credit'', status = ''Completada'',
      orderCode = None, details = None\<rparr>"

definition admin_withdraw_manage :: "int \<Rightarrow> nat \<Rightarrow> string \<Rightarrow> db \<Rightarrow> reply \<times> db" where
  "admin_withdraw_manage now withdrawalId action d =
     (case find (\<lambda>w. w_id w = withdrawalId) (withdrawals d) of
        None \<Rightarrow> (WithdrawalNotFound, d)
      | Some w \<Rightarrow>
          if w_status w \<noteq> ''Pending'' then (AlreadyProcessed, d)
          else if action = ''approve'' then
            (let d1 = set_withdrawal_status withdrawalId ''Approved'' d in
             case select_user d1 (w_user_id w) of
               None \<Rightarrow> (InternalError, d1)
             | Some provider \<Rightarrow>
                 (Success,
                  update_user (w_user_id w)
                    (\<lambda>u. u\<lparr>transactions_history :=
                             withdrawalTx now (amount_final w) # transactions_history provider\<rparr>)
                    d1))
          else if action = ''reject'' then
            (let d1 = set_withdrawal_status withdrawalId ''Rejected'' d;
                 d2 = update_user (w_user_id w)
                        (\<lambda>u. u\<lparr>balance := balance u + amount_original w\<rparr>) d1
             in case select_user d2 (w_user_id w) of
                  None \<Rightarrow> (InternalError, d2)
                | Some provider \<Rightarrow>
                    (Success,
                     update_user (w_user_id w)
                       (\<lambda>u. u\<lparr>transactions_history :=
                                withdrawalRefundTx now (amount_original w) #
                                  transactions_history provider\<rparr>)
                       d2))
          else (Success, d))"

section \<open>Purchase and stock allocation\<close>

text \<open>
  The stock counted for a row is \<^verbatim>\<open>parseInt(data.quantity) || 1\<close>: a missing, unreadable or
  zero quantity counts as one. \<^verbatim>\<open>updateProductStock\<close> recomputes the visible counter of a
  product from the unsold rows whose status is not \<^verbatim>\<open>Sin publicar\<close>.
\<close>

definition availableInRow :: "stock_data \<Rightarrow> int" where
  "availableInRow dt = (case quantity dt of None \<Rightarrow> 1 | Some q \<Rightarrow> if q = 0 then 1 else q)"

definition realStockCount :: "db \<Rightarrow> nat \<Rightarrow> int" where
  "realStockCount d productId =
     sum_list (map (\<lambda>r. availableInRow (data r))
       (filter (\<lambda>r. product_id r = productId \<and> \<not> is_sold r \<and>
                    data_status (data r) \<noteq> ''Sin publicar'') (product_stock d)))"

definition update_stock_row :: "nat \<Rightarrow> (stock_row \<Rightarrow> stock_row) \<Rightarrow> db \<Rightarrow> db" where
  "update_stock_row sid f d =
     d\<lparr>product_stock := map (\<lambda>r. if stock_id r = sid then f r else r) (product_stock d)\<rparr>"

definition update_product :: "nat \<Rightarrow> (product \<Rightarrow> product) \<Rightarrow> db \<Rightarrow> db" where
  "update_product pid f d =
     d\<lparr>products := map (\<lambda>p. if prod_id p = pid then f p else p) (products d)\<rparr>"

definition updateProductStock :: "nat \<Rightarrow> db \<Rightarrow> db" where
  "updateProductStock productId d =
     update_product productId (\<lambda>p. p\<lparr>stock := realStockCount d productId\<rparr>) d"

text \<open>
  The inner loop of the split branch: each \<^verbatim>\<open>INSERT\<close> is awaited, the new row takes the
  next id and its id joins the credentials.
\<close>

fun insert_sold_copies :: "nat \<Rightarrow> stock_row \<Rightarrow> nat list \<times> db \<Rightarrow> nat list \<times> db" where
  "insert_sold_copies 0 soldCopy (creds, d) = (creds, d)"
| "insert_sold_copies (Suc k) soldCopy (creds, d) =
     insert_sold_copies k soldCopy
       (creds @ [Suc (stock_seq d)],
        d\<lparr>product_stock := product_stock d @ [soldCopy\<lparr>stock_id := Suc (stock_seq d)\<rparr>],
          stock_seq := Suc (stock_seq d)\<rparr>)"

text \<open>
  The allocation loop over the rows read before it starts; \<open>sell_from_row\<close> is the body
  of the loop after its two guards. The state is
  \<^verbatim>\<open>collectedCount\<close>, the stock ids of \<^verbatim>\<open>credentialsList\<close> and the database. The two
  \<^verbatim>\<open>UPDATE\<close> statements are written as \<^verbatim>\<open>updatesToExecute.push(client.execute(...))\<close>:
  \<^verbatim>\<open>client.execute\<close> is called, and the statement sent, when the argument of \<^verbatim>\<open>push\<close> is
  evaluated; the later \<^verbatim>\<open>Promise.all\<close> only waits for the answers. So each update is
  applied where the loop issues it.
\<close>

definition sell_from_row ::
  "int \<Rightarrow> nat \<Rightarrow> nat \<Rightarrow> nat \<Rightarrow> rat option \<Rightarrow> stock_row \<Rightarrow>
   int \<times> nat list \<times> db \<Rightarrow> int \<times> nat list \<times> db" where
  "sell_from_row numericQty productId providerId userId price row st =
     (case st of (collectedCount, creds, d) \<Rightarrow>
        let availableRow = availableInRow (data row);
            needed = numericQty - collectedCount
        in if availableRow > needed then
             let d1 = update_stock_row (stock_id row)
                        (\<lambda>r. r\<lparr>data := (data row)\<lparr>quantity := Some (availableRow - needed)\<rparr>\<rparr>) d;
                 soldCopy = \<lparr>stock_id = 0, product_id = productId,
                             provider_user_id = providerId,
                             data = (data row)\<lparr>quantity := Some 1, price_sold_per_unit := price\<rparr>,
                             is_sold = True, sold_to_user_id = Some userId\<rparr>;
                 inserted = insert_sold_copies (nat needed) soldCopy (creds, d1)
             in (collectedCount + needed, fst inserted, snd inserted)
           else
             let d1 = update_stock_row (stock_id row)
                        (\<lambda>r. r\<lparr>is_sold := True, sold_to_user_id := Some userId,
                               data := (data row)\<lparr>price_sold_per_unit := price\<rparr>\<rparr>) d
             in (collectedCount + availableRow, creds @ [stock_id row], d1))"

fun allocate ::
  "int \<Rightarrow> nat \<Rightarrow> nat \<Rightarrow> nat \<Rightarrow> rat option \<Rightarrow> stock_row list \<Rightarrow>
   int \<times> nat list \<times> db \<Rightarrow> int \<times> nat list \<times> db" where
  "allocate numericQty productId providerId userId price [] st = st"
| "allocate numericQty productId providerId userId price (row # rows) (collectedCount, creds, d) =
     (if collectedCount \<ge> numericQty then (collectedCount, creds, d)
      else if data_status (data row) = ''Sin publicar'' then
        allocate numericQty productId providerId userId price rows (collectedCount, creds, d)
      else
        allocate numericQty productId providerId userId price rows
          (sell_from_row numericQty productId providerId userId price row
             (collectedCount, creds, d)))"

text \<open>
  \<^verbatim>\<open>POST /user/purchase\<close>. The order code of the buyer's entry is random and comes in as
  \<open>transactionId\<close>. The purchase date is stored as a day; read back it is the midnight
  before \<open>now\<close> (the server clock taken as UTC). \<open>numericQty\<close> is \<^verbatim>\<open>parseInt(quantity)\<close>;
  a quantity that is not a number is not modelled. The row of the orders table written
  for a product on request is left out.
\<close>

definition oneDay :: int where
  "oneDay = 1000 * 60 * 60 * 24"

definition purchaseTx :: "int \<Rightarrow> string \<Rightarrow> product \<Rightarrow> rat \<Rightarrow> bool \<Rightarrow> nat list \<Rightarrow> tx" where
  "purchaseTx now transactionId product a isOrderRequest creds =
     \<lparr>tx_id = JStr transactionId, amount = a, tx_type = ''debit'', status = ''Completada'',
      orderCode = None,
      details = Some \<lparr>productName = name product, purchaseDate = Some (now - now mod oneDay),
                      duration = Some (prod_duration product), fullCredentials = creds,
                      delivery = (if isOrderRequest then ''A pedido'' else ''Autoentrega''),
                      supportMessage = None\<rparr>\<rparr>"

definition saleTx :: "int \<Rightarrow> rat \<Rightarrow> tx" where
  "saleTx now a =
     \<lparr>tx_id = JNum now, amount = a, tx_type = ''credit'', status = ''Completada'',
      orderCode = None, details = None\<rparr>"

definition user_purchase ::
  "int \<Rightarrow> string \<Rightarrow> nat \<Rightarrow> string \<Rightarrow> string \<Rightarrow> rat \<Rightarrow> int \<Rightarrow> string \<Rightarrow> rat option \<Rightarrow> db \<Rightarrow>
   reply \<times> db" where
  "user_purchase now transactionId userId productName' platf numericAmount numericQty deliv
       finalPricePerUnit d =
     (if userId = 0 \<or> productName' = [] then (InvalidInput, d)
      else
        (case select_user d userId of
           None \<Rightarrow> (UserNotFound, d)
         | Some usr \<Rightarrow>
             if balance usr < numericAmount then (InsufficientBalance, d)
             else
               (case find (\<lambda>p. name p = productName' \<and> platform p = platf) (products d) of
                  None \<Rightarrow> (ProductNotFound, d)
                | Some product \<Rightarrow>
                    let productId = prod_id product;
                        providerId = creator_user_id product;
                        isOrderRequest = (deliv = ''A pedido'' \<or> prod_delivery product = ''A pedido'');
                        allStock = filter (\<lambda>r. product_id r = productId \<and> \<not> is_sold r)
                                     (product_stock d);
                        (collectedCount, creds, d1) =
                          allocate numericQty productId providerId userId finalPricePerUnit
                            allStock (0, [], d)
                    in if collectedCount < numericQty then (InsufficientStock, d1)
                       else
                         let d2 = update_product productId
                                    (\<lambda>p. p\<lparr>stock := stock p - numericQty\<rparr>) d1;
                             d3 = update_user userId
                                    (\<lambda>u. u\<lparr>balance := balance usr - numericAmount,
                                            transactions_history :=
                                              purchaseTx now transactionId product numericAmount
                                                isOrderRequest creds #
                                              transactions_history usr\<rparr>) d2
                         in (case select_user d3 providerId of
                               None \<Rightarrow> (InternalError, d3)
                             | Some providerData \<Rightarrow>
                                 (Success,
                                  update_user providerId
                                    (\<lambda>u. u\<lparr>balance := balance providerData + numericAmount,
                                            transactions_history :=
                                              saleTx now numericAmount #
                                              transactions_history providerData\<rparr>) d3)))))"

section \<open>Premium membership\<close>

text \<open>
  \<^verbatim>\<open>POST /user/upgrade-to-premium\<close>. The calendar step \<^verbatim>\<open>setMonth(getMonth() + months)\<close> is
  the parameter \<open>addMonths\<close>; the expiry is kept as a time in milliseconds.
\<close>

definition premiumTx :: "int \<Rightarrow> rat \<Rightarrow> string \<Rightarrow> tx" where
  "premiumTx now a targetRole =
     \<lparr>tx_id = JNum now, amount = a, tx_type = ''debit'', status = ''Completada'',
      orderCode = None,
      details = Some \<lparr>productName = ''Membres'' @ [CHR 0xED] @ ''a '' @ targetRole,
                      purchaseDate = Some (now - now mod oneDay), duration = None,
                      fullCredentials = [], delivery = [], supportMessage = None\<rparr>\<rparr>"

definition user_upgrade_to_premium ::
  "(int \<Rightarrow> int \<Rightarrow> int) \<Rightarrow> int \<Rightarrow> nat \<Rightarrow> rat \<Rightarrow> int \<Rightarrow> db \<Rightarrow> reply \<times> db" where
  "user_upgrade_to_premium addMonths now userId numericAmount numericMonths d =
     (if userId = 0 then (InvalidInput, d)
      else
        (case select_user d userId of
           None \<Rightarrow> (UserNotFound, d)
         | Some usr \<Rightarrow>
             if balance usr < numericAmount then (InsufficientBalance, d)
             else
               let targetRole =
                     (if role usr = ''proveedor'' \<or> role usr = ''Proveedor Premium''
                      then ''Proveedor Premium'' else ''Distribuidor Premium'');
                   start =
                     (case premium_expires_at usr of
                        Some currentExpiry \<Rightarrow>
                          if role usr = targetRole \<and> currentExpiry > now then currentExpiry else now
                      | None \<Rightarrow> now);
                   newExpirationDate = addMonths start numericMonths;
                   newBalance = balance usr - numericAmount
               in (Success,
                   update_user userId
                     (\<lambda>u. u\<lparr>balance := newBalance, role := targetRole,
                             premium_expires_at := Some newExpirationDate,
                             transactions_history :=
                               premiumTx now numericAmount targetRole #
                               transactions_history usr\<rparr>) d)))"

section \<open>Support and refunds\<close>

text \<open>
  Strings are read one \<open>char\<close> per UTF-16 code unit, which covers the labels in use;
  the accented i of the word for days, \<open>Dias\<close> below, is the code unit 0xED.
\<close>

definition is_space :: "char \<Rightarrow> bool" where
  "is_space c \<longleftrightarrow> c \<in> set [CHR 0x20, CHR 0x09, CHR 0x0A, CHR 0x0B, CHR 0x0C, CHR 0x0D, CHR 0xA0]"

definition is_digit :: "char \<Rightarrow> bool" where
  "is_digit c \<longleftrightarrow> c \<in> set ''0123456789''"

definition trim :: "string \<Rightarrow> string" where
  "trim s = rev (dropWhile is_space (rev (dropWhile is_space s)))"

text \<open>\<open>upper_char\<close> is \<^verbatim>\<open>toUpperCase\<close> on the 26 unaccented letters; other characters stay.\<close>

definition upper_char :: "char \<Rightarrow> char" where
  "upper_char c =
     (case map_of (zip ''abcdefghijklmnopqrstuvwxyz'' ''ABCDEFGHIJKLMNOPQRSTUVWXYZ'') c of
        Some u \<Rightarrow> u | None \<Rightarrow> c)"

definition falsy :: "js_value \<Rightarrow> bool" where
  "falsy v \<longleftrightarrow> v = JNum 0 \<or> v = JStr []"

fun find_index :: "('a \<Rightarrow> bool) \<Rightarrow> 'a list \<Rightarrow> nat option" where
  "find_index P [] = None"
| "find_index P (x # xs) = (if P x then Some 0 else map_option Suc (find_index P xs))"

definition empty_details :: tx_details where
  "empty_details =
     \<lparr>productName = [], purchaseDate = None, duration = None, fullCredentials = [],
      delivery = [], supportMessage = None\<rparr>"

definition details_or_empty :: "tx \<Rightarrow> tx_details" where
  "details_or_empty t = (case details t of Some dt \<Rightarrow> dt | None \<Rightarrow> empty_details)"

text \<open>
  \<^verbatim>\<open>POST /user/send-to-support\<close>. \<^verbatim>\<open>ensureOrderCode\<close> fills a missing order code from the id
  (its last six characters in upper case) or, for an empty id, from \<^verbatim>\<open>Math.random\<close>, here
  the parameter \<open>rnd\<close>. The first ledger entry whose id or order code equals the trimmed
  request id is moved to \<^verbatim>\<open>Soporte\<close>, whatever its status was. The look-up of the
  provider's display name, which only rewrites \<^verbatim>\<open>details.provider\<close>, is left out.
\<close>

definition ensureOrderCode :: "string \<Rightarrow> tx \<Rightarrow> tx" where
  "ensureOrderCode rnd t =
     (if (case orderCode t of Some c \<Rightarrow> c \<noteq> [] \<and> trim c \<noteq> [] | None \<Rightarrow> False) then t
      else
        let base = trim (String (tx_id t));
            code = (if base \<noteq> [] then ''#ORD-'' @ map upper_char (drop (length base - 6) base)
                    else ''#ORD-'' @ rnd)
        in t\<lparr>orderCode := Some code\<rparr>)"

definition support_match :: "string \<Rightarrow> string \<Rightarrow> tx \<Rightarrow> bool" where
  "support_match rnd incoming t0 =
     (let t = ensureOrderCode rnd t0;
          txIdStr = trim (String (tx_id t));
          txCodeStr = trim (case orderCode t of Some c \<Rightarrow> c | None \<Rightarrow> [])
      in (txIdStr \<noteq> [] \<and> txIdStr = incoming) \<or> (txCodeStr \<noteq> [] \<and> txCodeStr = incoming))"

definition user_send_to_support :: "string \<Rightarrow> nat \<Rightarrow> js_value \<Rightarrow> string \<Rightarrow> db \<Rightarrow> reply \<times> db" where
  "user_send_to_support rnd userId transactionId message d =
     (if userId = 0 \<or> falsy transactionId \<or> message = [] then (InvalidInput, d)
      else
        (case select_user d userId of
           None \<Rightarrow> (UserNotFound, d)
         | Some usr \<Rightarrow>
             let history = transactions_history usr;
                 incoming = trim (String transactionId)
             in (case find_index (support_match rnd incoming) history of
                   None \<Rightarrow> (TxNotFound, d)
                 | Some i \<Rightarrow>
                     let t = ensureOrderCode rnd (history ! i);
                         t' = t\<lparr>status := ''Soporte'',
                                details := Some ((details_or_empty t)\<lparr>supportMessage := Some message\<rparr>)\<rparr>
                     in (Success,
                         update_user userId (\<lambda>u. u\<lparr>transactions_history := history[i := t']\<rparr>) d))))"

text \<open>
  \<^verbatim>\<open>POST /supplier/handle-support\<close>. The duration label is matched against
  the regular expression \<^verbatim>\<open>(\d+)\s+\<close> followed by \<open>Dias\<close>: the first position from which a run of digits, a run of white space
  and the word follow; the digits are the captured group. The group is then read by
  \<^verbatim>\<open>parseInt(durationMatch[1], 16)\<close>.
\<close>

definition Dias :: string where
  "Dias = [CHR ''D'', CHR 0xED, CHR ''a'', CHR ''s'']"

definition match_here :: "string \<Rightarrow> string option" where
  "match_here s =
     (let ds = takeWhile is_digit s;
          r1 = dropWhile is_digit s;
          ws = takeWhile is_space r1;
          r2 = dropWhile is_space r1
      in if ds \<noteq> [] \<and> ws \<noteq> [] \<and> take 4 r2 = Dias then Some ds else None)"

fun durationMatch :: "string \<Rightarrow> string option" where
  "durationMatch [] = None"
| "durationMatch (c # cs) =
     (case match_here (c # cs) of Some ds \<Rightarrow> Some ds | None \<Rightarrow> durationMatch cs)"

definition digit_value :: "char \<Rightarrow> int" where
  "digit_value c = (case find_index (\<lambda>x. x = c) ''0123456789'' of Some k \<Rightarrow> int k | None \<Rightarrow> 0)"

text \<open>\<^verbatim>\<open>parseInt\<close> of a string of decimal digits in the given radix (at least ten).\<close>

definition parseInt_digits :: "int \<Rightarrow> string \<Rightarrow> int" where
  "parseInt_digits radix ds = foldl (\<lambda>acc c. acc * radix + digit_value c) 0 ds"

definition totalDays :: "string option \<Rightarrow> int" where
  "totalDays durationStr =
     (case (case durationStr of Some s \<Rightarrow> durationMatch s | None \<Rightarrow> None) of
        Some g \<Rightarrow> parseInt_digits 16 g
      | None \<Rightarrow> 30)"

definition amountToRefund :: "int \<Rightarrow> rat \<Rightarrow> int \<Rightarrow> string option \<Rightarrow> rat" where
  "amountToRefund now totalAmountPaid purchasedDate durationStr =
     (let safeTotalDays = max 1 (totalDays durationStr);
          diffTime = now - purchasedDate;
          daysUsed = diffTime div oneDay;
          daysRemaining = max 0 (safeTotalDays - daysUsed);
          costPerDay = totalAmountPaid / of_int safeTotalDays
      in toFixed2 (of_int daysRemaining * costPerDay))"

fun find_support_tx :: "js_value \<Rightarrow> (nat \<times> user) list \<Rightarrow> (nat \<times> tx \<times> tx list) option" where
  "find_support_tx purchaseId [] = None"
| "find_support_tx purchaseId ((uid, u) # rest) =
     (case find (\<lambda>t. tx_id t = purchaseId \<and> status t = ''Soporte'') (transactions_history u) of
        Some t \<Rightarrow> Some (uid, t, transactions_history u)
      | None \<Rightarrow> find_support_tx purchaseId rest)"

definition updateTransaction :: "js_value \<Rightarrow> string \<Rightarrow> tx \<Rightarrow> tx" where
  "updateTransaction purchaseId newStatus t =
     (if tx_id t = purchaseId
      then t\<lparr>status := newStatus,
             details := Some ((details_or_empty t)\<lparr>supportMessage := None\<rparr>)\<rparr>
      else t)"

definition refundTx :: "int \<Rightarrow> rat \<Rightarrow> tx" where
  "refundTx now a =
     \<lparr>tx_id = JNum now, amount = a, tx_type = ''credit'', status = ''Completada'',
      orderCode = None, details = None\<rparr>"

text \<open>Step d of the refund: the sold rows go back on sale and the counter is raised.\<close>

definition restore_stock :: "tx_details \<Rightarrow> db \<Rightarrow> db" where
  "restore_stock dt d =
     (if fullCredentials dt \<noteq> [] \<and> delivery dt \<noteq> ''A pedido'' then
        let stockIds = filter (\<lambda>i. i \<noteq> 0) (fullCredentials dt) in
        if stockIds \<noteq> [] then
          let d1 = d\<lparr>product_stock :=
                      map (\<lambda>r. if stock_id r \<in> set stockIds
                                then r\<lparr>is_sold := False, sold_to_user_id := None\<rparr> else r)
                        (product_stock d)\<rparr>
          in (case find (\<lambda>p. name p = productName dt) (products d1) of
                None \<Rightarrow> d1
              | Some p \<Rightarrow>
                  if prod_id p \<noteq> 0 then
                    update_product (prod_id p)
                      (\<lambda>p. p\<lparr>stock := stock p + int (length (fullCredentials dt))\<rparr>) d1
                  else d1)
        else d
      else d)"

definition supplier_handle_support :: "int \<Rightarrow> js_value \<Rightarrow> string \<Rightarrow> db \<Rightarrow> reply \<times> db" where
  "supplier_handle_support now purchaseId action d =
     (if falsy purchaseId \<or> action = [] then (InvalidInput, d)
      else
        (case find_support_tx purchaseId (users d) of
           None \<Rightarrow> (TxNotFound, d)
         | Some (targetUserId, targetTx, userHistory) \<Rightarrow>
             if targetUserId = 0 then (TxNotFound, d)
             else if action = ''refund'' then
               (case details targetTx of
                  None \<Rightarrow> (InternalError, d)
                | Some dt \<Rightarrow>
                    (case purchaseDate dt of
                       None \<Rightarrow> (InternalError, d)
                     | Some purchasedDate \<Rightarrow>
                         let refund = amountToRefund now (amount targetTx) purchasedDate (duration dt)
                         in if refund \<le> 0 then (NothingToRefund, d)
                            else
                              (case select_user d targetUserId of
                                 None \<Rightarrow> (InternalError, d)
                               | Some usr \<Rightarrow>
                                   let newBalance = toFixed2 (balance usr + refund);
                                       d1 = restore_stock dt d;
                                       updatedHistory =
                                         refundTx now refund #
                                           map (updateTransaction purchaseId ''Devuelto'') userHistory
                                   in (Success,
                                       update_user targetUserId
                                         (\<lambda>u. u\<lparr>transactions_history := updatedHistory,
                                                 balance := newBalance\<rparr>) d1))))
             else
               (Success,
                update_user targetUserId
                  (\<lambda>u. u\<lparr>transactions_history :=
                           map (updateTransaction purchaseId ''Completada'') userHistory\<rparr>) d)))"

text \<open>
  \<^verbatim>\<open>POST /supplier/refund/proportional\<close>. The amount is \<^verbatim>\<open>parseFloat(amountToRefund)\<close>; the
  buyer's entry is found by \<^verbatim>\<open>String(tx.id) === String(buyerTransactionId)\<close> among the debits.
\<close>

definition providerRefundTx :: "int \<Rightarrow> rat \<Rightarrow> tx" where
  "providerRefundTx now a =
     \<lparr>tx_id = JNum now, amount = a, tx_type = ''debit'', status = ''Completada'',
      orderCode = None, details = None\<rparr>"

definition refundCreditTx :: "int \<Rightarrow> rat \<Rightarrow> tx" where
  "refundCreditTx now a =
     \<lparr>tx_id = JNum (now + 1), amount = a, tx_type = ''credit'', status = ''Completada'',
      orderCode = None, details = None\<rparr>"

definition supplier_refund_proportional ::
  "int \<Rightarrow> nat \<Rightarrow> js_value \<Rightarrow> rat \<Rightarrow> nat \<Rightarrow> db \<Rightarrow> reply \<times> db" where
  "supplier_refund_proportional now buyerUserId buyerTransactionId numericAmount providerId d =
     (if buyerUserId = 0 \<or> falsy buyerTransactionId \<or> numericAmount \<le> 0 \<or> providerId = 0
      then (InvalidInput, d)
      else
        (case select_user d buyerUserId of
           None \<Rightarrow> (UserNotFound, d)
         | Some buyer \<Rightarrow>
             let buyerHistory = transactions_history buyer in
             (case find_index (\<lambda>t. String (tx_id t) = String buyerTransactionId \<and>
                                     tx_type t = ''debit'') buyerHistory of
                None \<Rightarrow> (TxNotFound, d)
              | Some targetTxIndex \<Rightarrow>
                  let targetTx = buyerHistory ! targetTxIndex in
                  if status targetTx = ''Devuelto'' then (AlreadyProcessed, d)
                  else
                    (case select_user d providerId of
                       None \<Rightarrow> (InternalError, d)
                     | Some provider \<Rightarrow>
                         if balance provider < numericAmount then (InsufficientBalance, d)
                         else
                           let d1 = update_user providerId
                                      (\<lambda>u. u\<lparr>balance := balance provider - numericAmount,
                                              transactions_history :=
                                                providerRefundTx now numericAmount #
                                                transactions_history provider\<rparr>) d;
                               marked = targetTx\<lparr>status := ''Devuelto'',
                                                 details := Some (details_or_empty targetTx)\<rparr>
                           in (Success,
                               update_user buyerUserId
                                 (\<lambda>u. u\<lparr>balance := balance buyer + numericAmount,
                                         transactions_history :=
                                           refundCreditTx now numericAmount #
                                           buyerHistory[targetTxIndex := marked]\<rparr>) d1)))))"

section \<open>Example states\<close>

definition demo_recharge :: "rat \<Rightarrow> tx" where
  "demo_recharge a =
     \<lparr>tx_id = JNum 1700000000000, amount = a, tx_type = ''credit'', status = ''Pendiente'',
      orderCode = None, details = None\<rparr>"

definition demo_distributor :: user where
  "demo_distributor =
     \<lparr>username = ''D'', balance = 0, role = ''distribuidor'', transactions_history = [],
      referred_by_user_id = None, premium_expires_at = None\<rparr>"

definition demo_buyer :: "rat \<Rightarrow> user" where
  "demo_buyer a =
     \<lparr>username = ''B'', balance = 0, role = ''Usuario'',
      transactions_history = [demo_recharge a], referred_by_user_id = Some 1, premium_expires_at = None\<rparr>"

definition demo_db :: "rat \<Rightarrow> db" where
  "demo_db a =
     \<lparr>users = [(1, demo_distributor), (2, demo_buyer a)], products = [], product_stock = [],
      stock_seq = 0, withdrawals = [], withdrawals_seq = 0, withdrawal_fee = None\<rparr>"

definition demo_provider :: "rat \<Rightarrow> user" where
  "demo_provider b =
     \<lparr>username = ''P'', balance = b, role = ''proveedor'', transactions_history = [],
      referred_by_user_id = None, premium_expires_at = None\<rparr>"

definition demo_hold :: withdrawal where
  "demo_hold =
     \<lparr>w_id = 1, w_user_id = 7, amount_original = 100, amount_final = 90, w_status = ''Pending''\<rparr>"

definition demo_w0 :: db where
  "demo_w0 =
     \<lparr>users = [(7, demo_provider 100)], products = [], product_stock = [], stock_seq = 0,
      withdrawals = [], withdrawals_seq = 0, withdrawal_fee = None\<rparr>"

definition demo_w1 :: db where
  "demo_w1 =
     \<lparr>users = [(7, demo_provider 0)], products = [], product_stock = [], stock_seq = 0,
      withdrawals = [demo_hold], withdrawals_seq = 1, withdrawal_fee = None\<rparr>"

definition demo_label :: string where
  "demo_label = ''30 '' @ Dias"

definition demo_row :: "nat \<Rightarrow> int \<Rightarrow> bool \<Rightarrow> stock_row" where
  "demo_row i q sold =
     \<lparr>stock_id = i, product_id = 10, provider_user_id = 1,
      data = \<lparr>data_status = ''Publicado'', quantity = Some q,
              price_sold_per_unit = (if sold then Some 15 else None)\<rparr>,
      is_sold = sold, sold_to_user_id = (if sold then Some 2 else None)\<rparr>"

definition demo_product :: "int \<Rightarrow> product" where
  "demo_product n =
     \<lparr>prod_id = 10, name = ''Netflix'', platform = ''Streaming'', stock = n,
      prod_duration = demo_label, prod_delivery = ''Autoentrega'', creator_user_id = 1\<rparr>"

definition demo_person :: "string \<Rightarrow> rat \<Rightarrow> tx list \<Rightarrow> user" where
  "demo_person n b h =
     \<lparr>username = n, balance = b, role = ''Usuario'', transactions_history = h,
      referred_by_user_id = None, premium_expires_at = None\<rparr>"

definition demo_market :: "user \<Rightarrow> user \<Rightarrow> int \<Rightarrow> stock_row list \<Rightarrow> db" where
  "demo_market seller buyer n rows =
     \<lparr>users = [(1, seller), (2, buyer)], products = [demo_product n], product_stock = rows,
      stock_seq = 2, withdrawals = [], withdrawals_seq = 0, withdrawal_fee = None\<rparr>"

definition demo_shop :: db where
  "demo_shop =
     demo_market (demo_person ''P'' 0 []) (demo_person ''B'' 30 []) 3
       [demo_row 1 2 False, demo_row 2 1 False]"

definition demo_order :: "string \<Rightarrow> tx" where
  "demo_order st =
     \<lparr>tx_id = JStr ''#ORD-ABC123'', amount = 30, tx_type = ''debit'', status = st,
      orderCode = None,
      details = Some \<lparr>productName = ''Netflix'', purchaseDate = Some 0,
                      duration = Some demo_label, fullCredentials = [1],
                      delivery = ''Autoentrega'', supportMessage = None\<rparr>\<rparr>"

definition demo_sold :: db where
  "demo_sold =
     demo_market (demo_person ''P'' 30 [saleTx 0 30]) (demo_person ''B'' 0 [demo_order ''Completada'']) 1
       [demo_row 1 2 True, demo_row 2 1 False]"

definition demo_ticket_order :: "string \<Rightarrow> string option \<Rightarrow> tx" where
  "demo_ticket_order st msg =
     \<lparr>tx_id = JStr ''#ORD-ABC123'', amount = 30, tx_type = ''debit'', status = st,
      orderCode = Some ''#ORD-ABC123'',
      details = Some \<lparr>productName = ''Netflix'', purchaseDate = Some 0,
                      duration = Some demo_label, fullCredentials = [1],
                      delivery = ''Autoentrega'', supportMessage = msg\<rparr>\<rparr>"

definition demo_after :: "rat \<Rightarrow> tx list \<Rightarrow> int \<Rightarrow> stock_row \<Rightarrow> db" where
  "demo_after b h n row =
     demo_market (demo_person ''P'' 30 [saleTx 0 30]) (demo_person ''B'' b h) n
       [row, demo_row 2 1 False]"

definition demo_restored_row :: stock_row where
  "demo_restored_row = (demo_row 1 2 True)\<lparr>is_sold := False, sold_to_user_id := None\<rparr>"

definition demo_ticket :: db where
  "demo_ticket =
     demo_after 0 [demo_ticket_order ''Soporte'' (Some ''no funciona'')] 1 (demo_row 1 2 True)"

definition demo_refunded :: db where
  "demo_refunded =
     demo_after (95 / 4) [refundTx 864000000 (95 / 4), demo_ticket_order ''Devuelto'' None] 2
       demo_restored_row"

definition demo_ticket_again :: db where
  "demo_ticket_again =
     demo_after (95 / 4)
       [refundTx 864000000 (95 / 4), demo_ticket_order ''Soporte'' (Some ''otra vez'')] 2
       demo_restored_row"

definition demo_refunded_twice :: db where
  "demo_refunded_twice =
     demo_after (95 / 2)
       [refundTx 864000001 (95 / 4), refundTx 864000000 (95 / 4),
        demo_ticket_order ''Devuelto'' None] 3
       demo_restored_row"

definition demo_lost :: db where
  "demo_lost =
     demo_market (demo_person ''P'' 0 []) (demo_person ''B'' 30 []) 3
       [demo_row 1 2 True, demo_row 2 1 True]"

definition demo_refunded_late :: db where
  "demo_refunded_late =
     demo_after (1063 / 100)
       [refundTx 2678400000 (1063 / 100), demo_ticket_order ''Devuelto'' None] 2
       demo_restored_row"

definition demo_small :: rat where
  "demo_small = fl (4 / 100)"

definition demo_entry :: "int \<Rightarrow> string \<Rightarrow> tx" where
  "demo_entry n st =
     \<lparr>tx_id = JNum n, amount = 50, tx_type = ''credit'', status = st, orderCode = None,
      details = None\<rparr>"

definition demo_pair :: "rat \<Rightarrow> tx list \<Rightarrow> rat \<Rightarrow> tx list \<Rightarrow> db" where
  "demo_pair b hr bb hb =
     \<lparr>users = [(1, demo_distributor\<lparr>balance := b, transactions_history := hr\<rparr>),
               (2, \<lparr>username = ''B'', balance = bb, role = ''Usuario'', transactions_history = hb,
                    referred_by_user_id = Some 1, premium_expires_at = None\<rparr>)],
      products = [], product_stock = [], stock_seq = 0, withdrawals = [], withdrawals_seq = 0,
      withdrawal_fee = None\<rparr>"

definition demo_paid_once :: db where
  "demo_paid_once = demo_pair 5 [commissionTx 0 5] 50 [demo_entry 1700000000000 ''Completada'']"

definition demo_recharge_in_support :: db where
  "demo_recharge_in_support =
     demo_pair 5 [commissionTx 0 5] 50
       [(demo_entry 1700000000000 ''Soporte'')
          \<lparr>orderCode := Some ''#ORD-000000'',
           details := Some (empty_details\<lparr>supportMessage := Some ''ayuda''\<rparr>)\<rparr>]"

definition demo_second_pending :: db where
  "demo_second_pending =
     demo_pair 5 [commissionTx 0 5] 50
       [demo_entry 1700000000001 ''Pendiente'',
        (demo_entry 1700000000000 ''Soporte'')
          \<lparr>orderCode := Some ''#ORD-000000'',
           details := Some (empty_details\<lparr>supportMessage := Some ''ayuda''\<rparr>)\<rparr>]"

definition demo_paid_twice :: db where
  "demo_paid_twice =
     demo_pair 10 [commissionTx 1 5, commissionTx 0 5] 100
       [demo_entry 1700000000001 ''Completada'',
        (demo_entry 1700000000000 ''Soporte'')
          \<lparr>orderCode := Some ''#ORD-000000'',
           details := Some (empty_details\<lparr>supportMessage := Some ''ayuda''\<rparr>)\<rparr>]"

definition published_total :: "stock_row list \<Rightarrow> int" where
  "published_total rows =
     sum_list (map (\<lambda>r. availableInRow (data r))
       (filter (\<lambda>r. data_status (data r) \<noteq> ''Sin publicar'') rows))"

section \<open>Properties of the recharge approval\<close>

lemma map_of_update_rows:
  "map_of (map (\<lambda>(i, u). if i = uid then (i, f u) else (i, u)) xs) k =
     (if k = uid then map_option f (map_of xs k) else map_of xs k)"
  by (induction xs) auto

lemma select_update_user:
  "select_user (update_user uid f d) k =
     (if k = uid then map_option f (select_user d k) else select_user d k)"
  by (simp add: select_user_def update_user_def map_of_update_rows)

lemma approve_history_length: "length (approve_history tid h) = length h"
  by (simp add: approve_history_def)

lemma approve_history_changes:
  "list_ex (is_pending_target tid) h \<Longrightarrow> approve_history tid h \<noteq> h"
proof
  assume ex: "list_ex (is_pending_target tid) h" and eq: "approve_history tid h = h"
  from ex obtain t where t: "t \<in> set h" "is_pending_target tid t" by (auto simp: list_ex_iff)
  from eq have "map status (approve_history tid h) = map status h" by simp
  then have "\<forall>x\<in>set h. status (if is_pending_target tid x then x\<lparr>status := ''Completada''\<rparr> else x) = status x"
    by (simp add: approve_history_def)
  with t show False by (auto simp: is_pending_target_def)
qed

lemma approve_history_unique:
  assumes "i < length h" "is_pending_target tid (h ! i)"
    and "\<forall>j<length h. j \<noteq> i \<longrightarrow> \<not> is_pending_target tid (h ! j)"
  shows "approve_history tid h = h[i := (h ! i)\<lparr>status := ''Completada''\<rparr>]"
  using assms by (auto simp: approve_history_def list_eq_iff_nth_eq nth_list_update)

lemma fold_amount_none:
  "\<forall>t\<in>set h. \<not> P t \<Longrightarrow> fold (\<lambda>t a. if P t then amount t else a) h a0 = a0"
  by (induction h arbitrary: a0) auto

lemma amountToAdd_unique:
  assumes "i < length h" "is_pending_target tid (h ! i)"
    and "\<forall>j<length h. j \<noteq> i \<longrightarrow> \<not> is_pending_target tid (h ! j)"
  shows "amountToAdd tid h = amount (h ! i)"
proof -
  have h: "h = take i h @ h ! i # drop (Suc i) h" using assms(1) by (simp add: id_take_nth_drop)
  have a: "\<forall>t\<in>set (take i h). \<not> is_pending_target tid t"
    using assms by (auto simp: in_set_conv_nth)
  have b: "\<forall>t\<in>set (drop (Suc i) h). \<not> is_pending_target tid t"
    using assms by (auto simp: in_set_conv_nth)
  have "amountToAdd tid h = fold (\<lambda>t a. if is_pending_target tid t then amount t else a) (take i h @ h ! i # drop (Suc i) h) 0"
    unfolding amountToAdd_def using h by simp
  also have "\<dots> = amount (h ! i)"
    using assms(2) by (simp add: fold_amount_none[OF a] fold_amount_none[OF b])
  finally show ?thesis .
qed

lemma pay_commission_other:
  "referred_by_user_id usr \<noteq> Some k \<Longrightarrow>
   select_user (pay_commission now usr a d) k = select_user d k"
  by (auto simp: pay_commission_def select_update_user Let_def split: option.splits)

lemma pay_commission_ledger:
  "select_user d k = Some u \<Longrightarrow>
   \<exists>u'. select_user (pay_commission now usr a d) k = Some u' \<and>
     (transactions_history u' = transactions_history u \<or>
      length (transactions_history u') = Suc (length (transactions_history u)))"
  by (auto simp: pay_commission_def select_update_user Let_def split: option.splits)

lemma approve_not_found:
  "\<not> (\<exists>usr. select_user d uid = Some usr \<and>
        list_ex (is_pending_target tid) (transactions_history usr)) \<Longrightarrow>
   fst (admin_transaction_approve now uid tid d) \<in> {UserNotFound, TxNotFound} \<and>
   snd (admin_transaction_approve now uid tid d) = d"
  by (auto simp: admin_transaction_approve_def Let_def split: option.splits)

lemma approve_found_changes:
  assumes u: "select_user d uid = Some usr"
    and ex: "list_ex (is_pending_target tid) (transactions_history usr)"
  shows "fst (admin_transaction_approve now uid tid d) = Success"
    and "snd (admin_transaction_approve now uid tid d) \<noteq> d"
proof -
  let ?h = "transactions_history usr"
  let ?d1 = "update_user uid (\<lambda>u. u\<lparr>transactions_history := approve_history tid ?h,
                               balance := balance usr + amountToAdd tid ?h\<rparr>) d"
  have r: "admin_transaction_approve now uid tid d = (Success, pay_commission now usr (amountToAdd tid ?h) ?d1)"
    using u ex by (simp add: admin_transaction_approve_def Let_def)
  show "fst (admin_transaction_approve now uid tid d) = Success" by (simp add: r)
  have s1: "select_user ?d1 uid = Some (usr\<lparr>transactions_history := approve_history tid ?h,
                               balance := balance usr + amountToAdd tid ?h\<rparr>)"
    using u by (simp add: select_update_user)
  from pay_commission_ledger[OF s1, of now usr "amountToAdd tid ?h"]
  obtain u' where u': "select_user (pay_commission now usr (amountToAdd tid ?h) ?d1) uid = Some u'"
    and alt: "transactions_history u' = approve_history tid ?h \<or>
       length (transactions_history u') = Suc (length (approve_history tid ?h))"
    by auto
  have "transactions_history u' \<noteq> ?h"
    using alt approve_history_changes[OF ex] by (auto simp: approve_history_length)
  then have "select_user (pay_commission now usr (amountToAdd tid ?h) ?d1) uid \<noteq> select_user d uid"
    using u u' by auto
  then show "snd (admin_transaction_approve now uid tid d) \<noteq> d"
    unfolding r by auto
qed

lemma approve_found_user:
  assumes u: "select_user d uid = Some usr"
    and ex: "list_ex (is_pending_target tid) (transactions_history usr)"
    and noself: "referred_by_user_id usr \<noteq> Some uid"
  shows "select_user (snd (admin_transaction_approve now uid tid d)) uid =
     Some (usr\<lparr>transactions_history := approve_history tid (transactions_history usr),
              balance := balance usr + amountToAdd tid (transactions_history usr)\<rparr>)"
  using u ex by (simp add: admin_transaction_approve_def Let_def pay_commission_other[OF noself] select_update_user)

text \<open>
  Claim C10. The approval changes the stored state exactly when the user exists and the
  ledger holds an entry with the given id in status \<^verbatim>\<open>Pendiente\<close>. Otherwise it answers
  with an error and returns the state it was given, so no balance and no ledger moved.
  When the entry is there (one entry, at position \<open>i\<close>, and the user is not their own
  referrer), the user's row afterwards is the old row with that entry set to
  \<^verbatim>\<open>Completada\<close> and the balance raised by that entry's amount.
\<close>

theorem approve_pending_guard:
  "(snd (admin_transaction_approve now uid tid d) \<noteq> d \<longleftrightarrow>
      (\<exists>usr. select_user d uid = Some usr \<and>
         list_ex (is_pending_target tid) (transactions_history usr))) \<and>
   (\<not> (\<exists>usr. select_user d uid = Some usr \<and>
         list_ex (is_pending_target tid) (transactions_history usr)) \<longrightarrow>
      fst (admin_transaction_approve now uid tid d) \<in> {UserNotFound, TxNotFound} \<and>
      snd (admin_transaction_approve now uid tid d) = d) \<and>
   (\<forall>usr i. select_user d uid = Some usr \<and> referred_by_user_id usr \<noteq> Some uid \<and>
        i < length (transactions_history usr) \<and>
        is_pending_target tid (transactions_history usr ! i) \<and>
        (\<forall>j < length (transactions_history usr).
            j \<noteq> i \<longrightarrow> \<not> is_pending_target tid (transactions_history usr ! j)) \<longrightarrow>
      fst (admin_transaction_approve now uid tid d) = Success \<and>
      select_user (snd (admin_transaction_approve now uid tid d)) uid =
        Some (usr\<lparr>transactions_history :=
                    (transactions_history usr)
                      [i := (transactions_history usr ! i)\<lparr>status := ''Completada''\<rparr>],
                 balance := balance usr + amount (transactions_history usr ! i)\<rparr>))"
proof (intro conjI allI impI)
  show "snd (admin_transaction_approve now uid tid d) \<noteq> d \<longleftrightarrow>
      (\<exists>usr. select_user d uid = Some usr \<and>
         list_ex (is_pending_target tid) (transactions_history usr))"
    using approve_not_found[of d uid tid now] approve_found_changes(2)[of d uid _ tid now]
    by blast
next
  assume "\<not> (\<exists>usr. select_user d uid = Some usr \<and>
         list_ex (is_pending_target tid) (transactions_history usr))"
  then show "fst (admin_transaction_approve now uid tid d) \<in> {UserNotFound, TxNotFound}"
    and "snd (admin_transaction_approve now uid tid d) = d"
    using approve_not_found[of d uid tid now] by blast+
next
  fix usr i
  assume a: "select_user d uid = Some usr \<and> referred_by_user_id usr \<noteq> Some uid \<and>
        i < length (transactions_history usr) \<and>
        is_pending_target tid (transactions_history usr ! i) \<and>
        (\<forall>j < length (transactions_history usr).
            j \<noteq> i \<longrightarrow> \<not> is_pending_target tid (transactions_history usr ! j))"
  then have ex: "list_ex (is_pending_target tid) (transactions_history usr)"
    unfolding list_ex_iff using nth_mem by blast
  show "fst (admin_transaction_approve now uid tid d) = Success"
    using a ex approve_found_changes(1) by blast
  show "select_user (snd (admin_transaction_approve now uid tid d)) uid =
        Some (usr\<lparr>transactions_history :=
                    (transactions_history usr)
                      [i := (transactions_history usr ! i)\<lparr>status := ''Completada''\<rparr>],
                 balance := balance usr + amount (transactions_history usr ! i)\<rparr>)"
    using a ex approve_found_user[of d uid usr tid now]
      approve_history_unique[of i "transactions_history usr" tid]
      amountToAdd_unique[of i "transactions_history usr" tid]
    by simp
qed

lemma demo_select [simp]:
  "select_user (demo_db a) 2 = Some (demo_buyer a)"
  "select_user (demo_db a) 1 = Some demo_distributor"
  by (simp_all add: select_user_def demo_db_def)

text \<open>The scenario of the specification: buyer 2 recharges 50.\<close>

theorem approve_pending_guard_witness:
  "fst (admin_transaction_approve 0 2 (JNum 1700000000000) (demo_db 50)) = Success \<and>
   select_user (snd (admin_transaction_approve 0 2 (JNum 1700000000000) (demo_db 50))) 2 =
     Some (demo_buyer 50\<lparr>transactions_history := [demo_recharge 50\<lparr>status := ''Completada''\<rparr>],
                          balance := 50\<rparr>)"
proof -
  have h: "select_user (demo_db 50) 2 = Some (demo_buyer 50) \<and>
        referred_by_user_id (demo_buyer 50) \<noteq> Some 2 \<and>
        0 < length (transactions_history (demo_buyer 50)) \<and>
        is_pending_target (JNum 1700000000000) (transactions_history (demo_buyer 50) ! 0) \<and>
        (\<forall>j < length (transactions_history (demo_buyer 50)).
            j \<noteq> 0 \<longrightarrow> \<not> is_pending_target (JNum 1700000000000) (transactions_history (demo_buyer 50) ! j))"
    by (simp add: demo_buyer_def demo_recharge_def is_pending_target_def)
  from approve_pending_guard[of 0 2 "JNum 1700000000000" "demo_db 50", THEN conjunct2,
      THEN conjunct2, rule_format, OF h]
  show ?thesis by (simp add: demo_buyer_def demo_recharge_def)
qed

lemma dec_digits_small: "n < 10 \<Longrightarrow> dec_digits n = [digit_char n]"
  by (simp add: dec_digits.simps)

lemma dec_digits_large:
  "10 \<le> n \<Longrightarrow> dec_digits n = dec_digits (n div 10) @ [digit_char (n mod 10)]"
  by (subst dec_digits.simps) simp

lemma timestamp_digits: "dec_digits 1700000000000 = ''1700000000000''"
  by (simp add: dec_digits_small dec_digits_large digit_char_def)

lemma send_to_support_string_id:
  "fst (user_send_to_support ''000000'' 2 (JStr ''1700000000000'') ''ayuda'' (demo_db 50)) = Success"
  by (simp add: user_send_to_support_def falsy_def demo_buyer_def demo_recharge_def
      support_match_def ensureOrderCode_def trim_def is_space_def timestamp_digits Let_def)

text \<open>
  Claim C9, at the approval and the rejection of a recharge. Both compare with \<^verbatim>\<open>===\<close>,
  not through \<^verbatim>\<open>String\<close>: the ledger entry with the numeric id 1700000000000 is not
  found when the same id arrives as the string \<^verbatim>\<open>"1700000000000"\<close>, although both print
  the same. Both handlers answer that the transaction was not found and change nothing,
  while the support handler, which compares through \<^verbatim>\<open>String\<close>, finds the entry.
\<close>

theorem approve_strict_id_mismatch:
  "String (tx_id (demo_recharge 50)) = String (JStr ''1700000000000'') \<and>
   admin_transaction_approve 0 2 (JStr ''1700000000000'') (demo_db 50) = (TxNotFound, demo_db 50) \<and>
   admin_transaction_reject 2 (JStr ''1700000000000'') (demo_db 50) = (TxNotFound, demo_db 50) \<and>
   fst (user_send_to_support ''000000'' 2 (JStr ''1700000000000'') ''ayuda'' (demo_db 50)) = Success"
  using send_to_support_string_id
  by (simp add: demo_recharge_def admin_transaction_approve_def admin_transaction_reject_def
      demo_buyer_def is_pending_target_def timestamp_digits)

lemma pay_commission_select:
  "select_user (pay_commission now usr a d) k =
     (if referred_by_user_id usr = Some k \<and> k \<noteq> 0 \<and>
         \<not> hasPreviousRecharges (transactions_history usr)
      then (case select_user d k of
              None \<Rightarrow> None
            | Some referrer \<Rightarrow>
                if 0 < commission_of a (role referrer)
                then Some (referrer\<lparr>transactions_history :=
                              commissionTx now (commission_of a (role referrer)) #
                                transactions_history referrer,
                            balance := balance referrer + commission_of a (role referrer)\<rparr>)
                else Some referrer)
      else select_user d k)"
  by (auto simp: pay_commission_def select_update_user Let_def split: option.splits)

lemma approve_select_other:
  assumes "select_user d uid = Some usr"
    and "list_ex (is_pending_target tid) (transactions_history usr)"
    and "k \<noteq> uid" "select_user d k = Some referrer"
  shows "select_user (snd (admin_transaction_approve now uid tid d)) k =
     (if referred_by_user_id usr = Some k \<and> k \<noteq> 0 \<and>
         \<not> hasPreviousRecharges (transactions_history usr) \<and>
         0 < commission_of (amountToAdd tid (transactions_history usr)) (role referrer)
      then Some (referrer\<lparr>transactions_history :=
              commissionTx now (commission_of (amountToAdd tid (transactions_history usr)) (role referrer)) #
                transactions_history referrer,
              balance := balance referrer +
                commission_of (amountToAdd tid (transactions_history usr)) (role referrer)\<rparr>)
      else Some referrer)"
  using assms
  by (simp add: admin_transaction_approve_def Let_def pay_commission_select select_update_user)

lemma approve_keeps_others_after_first:
  assumes "select_user d uid = Some usr"
    and "hasPreviousRecharges (transactions_history usr)" and "k \<noteq> uid"
  shows "select_user (snd (admin_transaction_approve now uid tid d)) k = select_user d k"
  using assms
  by (simp add: admin_transaction_approve_def Let_def pay_commission_select select_update_user)

lemma fl_zero [simp]: "fl 0 = 0"
  by (simp add: fl_def)

lemma commission_positive_rate:
  "0 < commission_of a r \<Longrightarrow> r \<in> {''Distribuidor Premium'', ''distribuidor'', ''proveedor''}"
  by (auto simp: commission_of_def commissionRate_def js_mul_def toFixed2_def split: if_splits)

text \<open>The two rates as binary64 values, and the product of 10.5 and 0.15 next to 1.575.\<close>

lemma rate_values:
  "commissionRate ''Distribuidor Premium'' = 5404319552844595 / 36028797018963968"
  "commissionRate ''distribuidor'' = 3602879701896397 / 36028797018963968"
  "commissionRate ''proveedor'' = 3602879701896397 / 36028797018963968"
  by code_simp+

lemma commission_below_tie:
  "js_mul (21 / 2) (commissionRate ''Distribuidor Premium'') < 1575 / 1000"
  "commission_of (21 / 2) ''Distribuidor Premium'' = 157 / 100"
  by code_simp+

lemma extended_row_differs:
  "(referrer::user)\<lparr>transactions_history := t # transactions_history referrer, balance := b\<rparr>
     \<noteq> referrer"
proof
  assume "referrer\<lparr>transactions_history := t # transactions_history referrer, balance := b\<rparr> = referrer"
  then have "transactions_history (referrer\<lparr>transactions_history := t # transactions_history referrer, balance := b\<rparr>)
     = transactions_history referrer" by simp
  then show False by simp
qed

lemma approved_credit_counts:
  assumes "i < length h" "is_pending_target tid (h ! i)" "tx_type (h ! i) = ''credit''"
  shows "hasPreviousRecharges (approve_history tid h)"
proof -
  have "approve_history tid h ! i = (h ! i)\<lparr>status := ''Completada''\<rparr>"
    using assms by (simp add: approve_history_def)
  moreover have "approve_history tid h ! i \<in> set (approve_history tid h)"
    using assms(1) by (simp add: approve_history_length)
  ultimately have "(h ! i)\<lparr>status := ''Completada''\<rparr> \<in> set (approve_history tid h)"
    by simp
  then show ?thesis
    unfolding hasPreviousRecharges_def list_ex_iff using assms(3)
    by (intro bexI[of _ "(h ! i)\<lparr>status := ''Completada''\<rparr>"]) simp_all
qed

text \<open>
  Claim C4, amended. Let the user's only pending entry with the given id have amount \<open>A\<close>,
  and let \<open>k\<close> be another user with row \<open>referrer\<close>. The approval changes the row of
  \<open>k\<close> if and only if \<open>k\<close> is the user's referrer, the role of \<open>k\<close> is one of
  \<^verbatim>\<open>Distribuidor Premium\<close>, \<^verbatim>\<open>distribuidor\<close>, \<^verbatim>\<open>proveedor\<close>, the ledger held no
  \<^verbatim>\<open>Completada\<close> credit at the approval, and the commission, the binary64 product of
  \<open>A\<close> and the rate rounded to two decimals, is positive. The change is one commission
  credit of that amount at the head of the referrer's ledger and the same amount added to
  the balance; the rate is the number written 0.15, 0.10 or 0 by role. An approval made
  while the ledger holds a \<^verbatim>\<open>Completada\<close> credit changes the row of no other user; that is
  the case of an approval that directly follows the approval of a credit entry.
\<close>

theorem commission_on_first_recharge:
  assumes usr: "select_user d uid = Some usr"
    and i: "i < length (transactions_history usr)"
      "is_pending_target tid (transactions_history usr ! i)"
    and uniq: "\<forall>j < length (transactions_history usr).
        j \<noteq> i \<longrightarrow> \<not> is_pending_target tid (transactions_history usr ! j)"
    and k: "k \<noteq> uid" "select_user d k = Some referrer"
  shows
    "(select_user (snd (admin_transaction_approve now uid tid d)) k \<noteq> Some referrer \<longleftrightarrow>
        referred_by_user_id usr = Some k \<and> k \<noteq> 0 \<and>
        role referrer \<in> {''Distribuidor Premium'', ''distribuidor'', ''proveedor''} \<and>
        \<not> hasPreviousRecharges (transactions_history usr) \<and>
        0 < toFixed2 (js_mul (amount (transactions_history usr ! i))
                        (commissionRate (role referrer)))) \<and>
     (select_user (snd (admin_transaction_approve now uid tid d)) k \<noteq> Some referrer \<longrightarrow>
        select_user (snd (admin_transaction_approve now uid tid d)) k =
          Some (referrer\<lparr>transactions_history :=
                  commissionTx now
                    (toFixed2 (js_mul (amount (transactions_history usr ! i))
                                 (commissionRate (role referrer)))) #
                    transactions_history referrer,
                  balance := balance referrer +
                    toFixed2 (js_mul (amount (transactions_history usr ! i))
                                (commissionRate (role referrer)))\<rparr>)) \<and>
     commissionRate (role referrer) =
       (if role referrer = ''Distribuidor Premium'' then fl (15 / 100)
        else if role referrer = ''distribuidor'' \<or> role referrer = ''proveedor'' then fl (10 / 100)
        else 0) \<and>
     (hasPreviousRecharges (transactions_history usr) \<longrightarrow>
        select_user (snd (admin_transaction_approve now uid tid d)) k = Some referrer) \<and>
     (tx_type (transactions_history usr ! i) = ''credit'' \<and> referred_by_user_id usr \<noteq> Some uid \<longrightarrow>
        (\<forall>now' tid'.
           select_user (snd (admin_transaction_approve now' uid tid'
               (snd (admin_transaction_approve now uid tid d)))) k =
           select_user (snd (admin_transaction_approve now uid tid d)) k))"
proof -
  let ?h = "transactions_history usr"
  let ?d' = "snd (admin_transaction_approve now uid tid d)"
  let ?c = "toFixed2 (js_mul (amount (?h ! i)) (commissionRate (role referrer)))"
  have ex: "list_ex (is_pending_target tid) ?h"
    unfolding list_ex_iff using i nth_mem by blast
  have A: "amountToAdd tid ?h = amount (?h ! i)"
    using amountToAdd_unique[OF i uniq] .
  note sel = approve_select_other[OF usr ex k, of now, unfolded A commission_of_def]
  have 1: "select_user ?d' k \<noteq> Some referrer \<longleftrightarrow>
        referred_by_user_id usr = Some k \<and> k \<noteq> 0 \<and>
        role referrer \<in> {''Distribuidor Premium'', ''distribuidor'', ''proveedor''} \<and>
        \<not> hasPreviousRecharges ?h \<and> 0 < ?c"
    using sel commission_positive_rate[of "amount (?h ! i)" "role referrer", unfolded commission_of_def]
      extended_row_differs
    by (auto simp del: insert_iff)
  have 2: "select_user ?d' k \<noteq> Some referrer \<longrightarrow>
        select_user ?d' k =
          Some (referrer\<lparr>transactions_history := commissionTx now ?c # transactions_history referrer,
                  balance := balance referrer + ?c\<rparr>)"
    using sel by (auto split: if_splits)
  have 3: "commissionRate (role referrer) =
       (if role referrer = ''Distribuidor Premium'' then fl (15 / 100)
        else if role referrer = ''distribuidor'' \<or> role referrer = ''proveedor'' then fl (10 / 100)
        else 0)"
    by (simp add: commissionRate_def)
  have 4: "hasPreviousRecharges ?h \<longrightarrow> select_user ?d' k = Some referrer"
    using 1 by blast
  have 5: "tx_type (?h ! i) = ''credit'' \<and> referred_by_user_id usr \<noteq> Some uid \<longrightarrow>
        (\<forall>now' tid'. select_user (snd (admin_transaction_approve now' uid tid' ?d')) k =
           select_user ?d' k)"
  proof (intro impI allI)
    fix now' tid'
    assume c: "tx_type (?h ! i) = ''credit'' \<and> referred_by_user_id usr \<noteq> Some uid"
    have u': "select_user ?d' uid =
        Some (usr\<lparr>transactions_history := approve_history tid ?h,
                 balance := balance usr + amountToAdd tid ?h\<rparr>)"
      using approve_found_user[OF usr ex] c by simp
    have hp: "hasPreviousRecharges (transactions_history
        (usr\<lparr>transactions_history := approve_history tid ?h,
                 balance := balance usr + amountToAdd tid ?h\<rparr>))"
      using approved_credit_counts[OF i] c by simp
    show "select_user (snd (admin_transaction_approve now' uid tid' ?d')) k = select_user ?d' k"
      using approve_keeps_others_after_first[OF u' hp k(1)] .
  qed
  from 1 2 3 4 5 show ?thesis by blast
qed

lemma demo_buyer_target:
  "0 < length (transactions_history (demo_buyer a))"
  "is_pending_target (JNum 1700000000000) (transactions_history (demo_buyer a) ! 0)"
  "\<forall>j < length (transactions_history (demo_buyer a)).
      j \<noteq> 0 \<longrightarrow> \<not> is_pending_target (JNum 1700000000000) (transactions_history (demo_buyer a) ! j)"
  "amount (transactions_history (demo_buyer a) ! 0) = a"
  "\<not> hasPreviousRecharges (transactions_history (demo_buyer a))"
  "referred_by_user_id (demo_buyer a) = Some 1"
  by (simp_all add: demo_buyer_def demo_recharge_def is_pending_target_def hasPreviousRecharges_def)

lemma demo_commissions:
  "toFixed2 (js_mul 50 (commissionRate ''distribuidor'')) = 5"
  "toFixed2 (js_mul demo_small (commissionRate ''distribuidor'')) = 0"
  by code_simp+

text \<open>A distributor referred the buyer; the first recharge of 50 pays 5.00.\<close>

theorem commission_on_first_recharge_witness:
  "select_user (snd (admin_transaction_approve 0 2 (JNum 1700000000000) (demo_db 50))) 1 =
     Some (demo_distributor\<lparr>transactions_history := [commissionTx 0 5], balance := 5\<rparr>)"
proof -
  have r: "role demo_distributor = ''distribuidor''"
    by (simp add: demo_distributor_def)
  have ne12: "(1::nat) \<noteq> 2" by simp
  note t = commission_on_first_recharge[of "demo_db 50" 2 "demo_buyer 50" 0 "JNum 1700000000000"
      1 demo_distributor 0, OF demo_select(1) demo_buyer_target(1,2,3) ne12 demo_select(2),
      unfolded demo_buyer_target(4) r demo_commissions(1)]
  have pos: "referred_by_user_id (demo_buyer 50) = Some 1 \<and> (1::nat) \<noteq> 0 \<and>
        ''distribuidor'' \<in> {''Distribuidor Premium'', ''distribuidor'', ''proveedor''} \<and>
        \<not> hasPreviousRecharges (transactions_history (demo_buyer 50)) \<and> (0::rat) < 5"
    by (simp add: demo_buyer_target)
  have ne: "select_user (snd (admin_transaction_approve 0 2 (JNum 1700000000000) (demo_db 50))) 1
      \<noteq> Some demo_distributor"
    using t[THEN conjunct1] pos by blast
  have "select_user (snd (admin_transaction_approve 0 2 (JNum 1700000000000) (demo_db 50))) 1 =
     Some (demo_distributor\<lparr>transactions_history :=
        commissionTx 0 5 # transactions_history demo_distributor,
        balance := balance demo_distributor + 5\<rparr>)"
    using t[THEN conjunct2, THEN conjunct1] ne by blast
  then show ?thesis
    by (simp add: demo_distributor_def)
qed

lemmas approve_eval =
  admin_transaction_approve_def pay_commission_def select_user_def update_user_def
  hasPreviousRecharges_def is_pending_target_def amountToAdd_def approve_history_def
  commission_of_def demo_commissions commissionTx_def Let_def

lemma demo_first_approval:
  "admin_transaction_approve 0 2 (JNum 1700000000000) (demo_db 50) = (Success, demo_paid_once)"
  by (simp add: approve_eval demo_db_def demo_paid_once_def demo_pair_def demo_buyer_def
      demo_recharge_def demo_distributor_def demo_entry_def)

lemma demo_recharge_to_support:
  "user_send_to_support ''000000'' 2 (JNum 1700000000000) ''ayuda'' demo_paid_once =
     (Success, demo_recharge_in_support)"
  by (simp add: user_send_to_support_def falsy_def demo_paid_once_def
      demo_recharge_in_support_def demo_pair_def demo_entry_def select_user_def update_user_def
      support_match_def ensureOrderCode_def trim_def is_space_def timestamp_digits upper_char_def
      details_or_empty_def empty_details_def Let_def)

lemma demo_record_second:
  "transaction_record 2 (demo_entry 1700000000001 ''Pendiente'') demo_recharge_in_support =
     (Success, demo_second_pending)"
  by (simp add: transaction_record_def demo_recharge_in_support_def demo_second_pending_def
      demo_pair_def select_user_def update_user_def)

lemma demo_second_approval:
  "admin_transaction_approve 1 2 (JNum 1700000000001) demo_second_pending =
     (Success, demo_paid_twice)"
  by (simp add: approve_eval demo_second_pending_def demo_paid_twice_def demo_pair_def
      demo_entry_def demo_distributor_def)

text \<open>
  The claim as written fails in two places. A first recharge of 0.04 with a distributor as
  referrer gives a commission that rounds to 0.00; the guard \<^verbatim>\<open>commission > 0\<close> is false
  and nothing is credited. And a later recharge can pay again: the approved recharge is
  sent to support, which takes it out of the \<^verbatim>\<open>Completada\<close> credits, a second recharge is
  recorded and approved, and the referrer, paid 5.00 before, is paid 5.00 once more.
\<close>

theorem commission_iff_counterexample:
  "(referred_by_user_id (demo_buyer demo_small) = Some 1 \<and>
    select_user (demo_db demo_small) 1 = Some demo_distributor \<and>
    role demo_distributor = ''distribuidor'' \<and>
    \<not> hasPreviousRecharges (transactions_history (demo_buyer demo_small)) \<and>
    fst (admin_transaction_approve 0 2 (JNum 1700000000000) (demo_db demo_small)) = Success \<and>
    select_user (snd (admin_transaction_approve 0 2 (JNum 1700000000000) (demo_db demo_small))) 1 =
      Some demo_distributor) \<and>
   (admin_transaction_approve 0 2 (JNum 1700000000000) (demo_db 50) = (Success, demo_paid_once) \<and>
    user_send_to_support ''000000'' 2 (JNum 1700000000000) ''ayuda'' demo_paid_once =
      (Success, demo_recharge_in_support) \<and>
    transaction_record 2 (demo_entry 1700000000001 ''Pendiente'') demo_recharge_in_support =
      (Success, demo_second_pending) \<and>
    admin_transaction_approve 1 2 (JNum 1700000000001) demo_second_pending =
      (Success, demo_paid_twice) \<and>
    map_option balance (select_user (demo_db 50) 1) = Some 0 \<and>
    map_option balance (select_user demo_paid_once 1) = Some 5 \<and>
    map_option balance (select_user demo_paid_twice 1) = Some 10)"
proof -
  have ne12: "(1::nat) \<noteq> 2" by simp
  have ex: "list_ex (is_pending_target (JNum 1700000000000))
      (transactions_history (demo_buyer demo_small))"
    unfolding list_ex_iff using demo_buyer_target(1,2) nth_mem by blast
  have A: "amountToAdd (JNum 1700000000000) (transactions_history (demo_buyer demo_small)) =
      demo_small"
    using amountToAdd_unique[OF demo_buyer_target(1,2,3)] demo_buyer_target(4) by simp
  have c: "commission_of demo_small (role demo_distributor) = 0"
    unfolding commission_of_def
    using demo_commissions(2) by (simp add: demo_distributor_def)
  have "select_user (snd (admin_transaction_approve 0 2 (JNum 1700000000000) (demo_db demo_small))) 1 =
     Some demo_distributor"
    using approve_select_other[OF demo_select(1) ex ne12 demo_select(2), where now = 0]
    unfolding A c by simp
  moreover have "fst (admin_transaction_approve 0 2 (JNum 1700000000000) (demo_db demo_small)) = Success"
    using approve_found_changes(1)[OF demo_select(1) ex] .
  moreover have "role demo_distributor = ''distribuidor''"
    by (simp add: demo_distributor_def)
  moreover have "map_option balance (select_user (demo_db 50) 1) = Some 0"
    "map_option balance (select_user demo_paid_once 1) = Some 5"
    "map_option balance (select_user demo_paid_twice 1) = Some 10"
    by (simp_all add: demo_db_def demo_distributor_def demo_paid_once_def demo_paid_twice_def
        demo_pair_def select_user_def)
  ultimately show ?thesis
    using demo_buyer_target(5,6)[of demo_small] demo_select(2)[of demo_small]
      demo_first_approval demo_recharge_to_support demo_record_second demo_second_approval
    by blast
qed

section \<open>Properties of the withdrawal workflow\<close>

lemma withdraw_duplicate:
  "0 < G \<Longrightarrow> has_pending_withdrawal d uid \<Longrightarrow>
   supplier_withdraw uid G d = (DuplicateRequest, d)"
  by (simp add: supplier_withdraw_def)

lemma withdraw_insufficient:
  "0 < G \<Longrightarrow> \<not> has_pending_withdrawal d uid \<Longrightarrow> select_user d uid = Some usr \<Longrightarrow>
   toFixed2 (balance usr) < toFixed2 G \<Longrightarrow>
   supplier_withdraw uid G d = (InsufficientBalance, d)"
  by (simp add: supplier_withdraw_def Let_def)

lemma select_user_insert_withdrawal [simp]:
  "select_user (insert_withdrawal uid a b d) k = select_user d k"
  by (simp add: select_user_def insert_withdrawal_def)

lemma select_user_set_withdrawal_status [simp]:
  "select_user (set_withdrawal_status wid s d) k = select_user d k"
  by (simp add: select_user_def set_withdrawal_status_def)

lemma withdrawals_update_user [simp]:
  "withdrawals (update_user uid f d) = withdrawals d"
  by (simp add: update_user_def)

lemma withdrawals_insert_withdrawal [simp]:
  "withdrawals (insert_withdrawal uid a b d) =
     withdrawals d @
       [\<lparr>w_id = Suc (withdrawals_seq d), w_user_id = uid, amount_original = a,
         amount_final = b, w_status = ''Pending''\<rparr>]"
  by (simp add: insert_withdrawal_def)

lemma withdrawals_set_withdrawal_status [simp]:
  "withdrawals (set_withdrawal_status wid s d) =
     map (\<lambda>x. if w_id x = wid then x\<lparr>w_status := s\<rparr> else x) (withdrawals d)"
  by (simp add: set_withdrawal_status_def)

lemma select_user_withdrawals_update [simp]:
  "select_user (d\<lparr>withdrawals := ws\<rparr>) k = select_user d k"
  by (simp add: select_user_def)

lemma withdraw_accepted:
  assumes "0 < G" "\<not> has_pending_withdrawal d uid" "select_user d uid = Some usr"
    and "toFixed2 G \<le> toFixed2 (balance usr)"
  shows "fst (supplier_withdraw uid G d) = Success"
    and "withdrawals (snd (supplier_withdraw uid G d)) =
           withdrawals d @
             [\<lparr>w_id = Suc (withdrawals_seq d), w_user_id = uid, amount_original = G,
               amount_final = G - G * fee_rate d, w_status = ''Pending''\<rparr>]"
    and "select_user (snd (supplier_withdraw uid G d)) uid = Some (usr\<lparr>balance := balance usr - G\<rparr>)"
  using assms
  by (simp_all add: supplier_withdraw_def Let_def select_update_user)

lemma manage_approve:
  assumes "find (\<lambda>w. w_id w = wid) (withdrawals d) = Some w" "w_status w = ''Pending''"
    and "select_user d (w_user_id w) = Some p"
  shows "fst (admin_withdraw_manage now wid ''approve'' d) = Success"
    and "select_user (snd (admin_withdraw_manage now wid ''approve'' d)) (w_user_id w) =
           Some (p\<lparr>transactions_history :=
                    \<lparr>tx_id = JNum (now + 1), amount = amount_final w, tx_type = ''debit'',
                      status = ''Completada'', orderCode = None, details = None\<rparr> #
                    transactions_history p\<rparr>)"
    and "withdrawals (snd (admin_withdraw_manage now wid ''approve'' d)) =
           map (\<lambda>x. if w_id x = wid then x\<lparr>w_status := ''Approved''\<rparr> else x) (withdrawals d)"
  using assms
  by (simp_all add: admin_withdraw_manage_def Let_def select_update_user withdrawalTx_def)

lemma manage_reject:
  assumes "find (\<lambda>w. w_id w = wid) (withdrawals d) = Some w" "w_status w = ''Pending''"
    and "select_user d (w_user_id w) = Some p"
  shows "fst (admin_withdraw_manage now wid ''reject'' d) = Success"
    and "select_user (snd (admin_withdraw_manage now wid ''reject'' d)) (w_user_id w) =
           Some (p\<lparr>balance := balance p + amount_original w,
                   transactions_history :=
                    \<lparr>tx_id = JNum (now + 2), amount = amount_original w, tx_type = ''credit'',
                      status = ''Completada'', orderCode = None, details = None\<rparr> #
                    transactions_history p\<rparr>)"
    and "withdrawals (snd (admin_withdraw_manage now wid ''reject'' d)) =
           map (\<lambda>x. if w_id x = wid then x\<lparr>w_status := ''Rejected''\<rparr> else x) (withdrawals d)"
  using assms
  by (simp_all add: admin_withdraw_manage_def Let_def select_update_user withdrawalRefundTx_def)

lemma cancel_pending:
  assumes "find (\<lambda>w. w_id w = wid \<and> w_user_id w = uid \<and> w_status w = ''Pending'')
             (withdrawals d) = Some w"
    and "select_user d uid = Some usr"
  shows "fst (supplier_withdraw_cancel wid uid d) = Success"
    and "withdrawals (snd (supplier_withdraw_cancel wid uid d)) =
           filter (\<lambda>x. w_id x \<noteq> wid) (withdrawals d)"
    and "select_user (snd (supplier_withdraw_cancel wid uid d)) uid =
           Some (usr\<lparr>balance := balance usr + amount_original w\<rparr>)"
  using assms
  by (simp_all add: supplier_withdraw_cancel_def Let_def select_update_user)

text \<open>
  Claim C5. For a positive gross amount \<open>G\<close>: a request is refused as a duplicate when the
  user has a pending one; it is refused when \<open>G\<close> rounded to two decimals exceeds the
  rounded balance; otherwise a pending request with net \<open>G - G * r\<close> is stored (\<open>r\<close> the
  configured rate, 0.10 by default) and the balance drops by \<open>G\<close>, the ledger staying as it
  was. Approving a pending request puts one debit of the net amount at the head of the
  ledger and leaves the balance alone. Rejecting it adds the gross amount back and puts a
  credit of the gross amount at the head of the ledger. Cancelling a pending request
  deletes it and adds the gross amount back, the ledger staying as it was.
\<close>

theorem withdrawal_workflow:
  "(0 < G \<and> has_pending_withdrawal d uid \<longrightarrow>
      supplier_withdraw uid G d = (DuplicateRequest, d)) \<and>
   (0 < G \<and> \<not> has_pending_withdrawal d uid \<and> select_user d uid = Some usr \<and>
    toFixed2 (balance usr) < toFixed2 G \<longrightarrow>
      supplier_withdraw uid G d = (InsufficientBalance, d)) \<and>
   (0 < G \<and> \<not> has_pending_withdrawal d uid \<and> select_user d uid = Some usr \<and>
    toFixed2 G \<le> toFixed2 (balance usr) \<longrightarrow>
      fst (supplier_withdraw uid G d) = Success \<and>
      withdrawals (snd (supplier_withdraw uid G d)) =
        withdrawals d @
          [\<lparr>w_id = Suc (withdrawals_seq d), w_user_id = uid, amount_original = G,
            amount_final = G - G * (case withdrawal_fee d of Some v \<Rightarrow> v | None \<Rightarrow> 10 / 100),
            w_status = ''Pending''\<rparr>] \<and>
      select_user (snd (supplier_withdraw uid G d)) uid =
        Some (usr\<lparr>balance := balance usr - G\<rparr>)) \<and>
   (find (\<lambda>w. w_id w = wid) (withdrawals d) = Some w \<and> w_status w = ''Pending'' \<and>
    select_user d (w_user_id w) = Some p \<longrightarrow>
      fst (admin_withdraw_manage now wid ''approve'' d) = Success \<and>
      select_user (snd (admin_withdraw_manage now wid ''approve'' d)) (w_user_id w) =
        Some (p\<lparr>transactions_history :=
                 \<lparr>tx_id = JNum (now + 1), amount = amount_final w, tx_type = ''debit'',
                   status = ''Completada'', orderCode = None, details = None\<rparr> #
                 transactions_history p\<rparr>) \<and>
      fst (admin_withdraw_manage now wid ''reject'' d) = Success \<and>
      select_user (snd (admin_withdraw_manage now wid ''reject'' d)) (w_user_id w) =
        Some (p\<lparr>balance := balance p + amount_original w,
                transactions_history :=
                 \<lparr>tx_id = JNum (now + 2), amount = amount_original w, tx_type = ''credit'',
                   status = ''Completada'', orderCode = None, details = None\<rparr> #
                 transactions_history p\<rparr>)) \<and>
   (find (\<lambda>w. w_id w = wid \<and> w_user_id w = uid \<and> w_status w = ''Pending'') (withdrawals d) =
      Some w \<and> select_user d uid = Some usr \<longrightarrow>
      fst (supplier_withdraw_cancel wid uid d) = Success \<and>
      withdrawals (snd (supplier_withdraw_cancel wid uid d)) =
        filter (\<lambda>x. w_id x \<noteq> wid) (withdrawals d) \<and>
      select_user (snd (supplier_withdraw_cancel wid uid d)) uid =
        Some (usr\<lparr>balance := balance usr + amount_original w\<rparr>))"
proof (intro conjI impI)
  assume "0 < G \<and> has_pending_withdrawal d uid"
  then show "supplier_withdraw uid G d = (DuplicateRequest, d)"
    by (simp add: withdraw_duplicate)
next
  assume "0 < G \<and> \<not> has_pending_withdrawal d uid \<and> select_user d uid = Some usr \<and>
    toFixed2 (balance usr) < toFixed2 G"
  then show "supplier_withdraw uid G d = (InsufficientBalance, d)"
    by (simp add: withdraw_insufficient)
next
  assume a: "0 < G \<and> \<not> has_pending_withdrawal d uid \<and> select_user d uid = Some usr \<and>
    toFixed2 G \<le> toFixed2 (balance usr)"
  then show "fst (supplier_withdraw uid G d) = Success"
    by (simp add: withdraw_accepted(1))
  from a show "withdrawals (snd (supplier_withdraw uid G d)) =
        withdrawals d @
          [\<lparr>w_id = Suc (withdrawals_seq d), w_user_id = uid, amount_original = G,
            amount_final = G - G * (case withdrawal_fee d of Some v \<Rightarrow> v | None \<Rightarrow> 10 / 100),
            w_status = ''Pending''\<rparr>]"
    using withdraw_accepted(2)[of G d uid usr] by (simp add: fee_rate_def)
  from a show "select_user (snd (supplier_withdraw uid G d)) uid =
        Some (usr\<lparr>balance := balance usr - G\<rparr>)"
    by (simp add: withdraw_accepted(3))
next
  assume a: "find (\<lambda>w. w_id w = wid) (withdrawals d) = Some w \<and> w_status w = ''Pending'' \<and>
    select_user d (w_user_id w) = Some p"
  then show "fst (admin_withdraw_manage now wid ''approve'' d) = Success"
    by (simp add: manage_approve(1))
  from a show "select_user (snd (admin_withdraw_manage now wid ''approve'' d)) (w_user_id w) =
        Some (p\<lparr>transactions_history :=
                 \<lparr>tx_id = JNum (now + 1), amount = amount_final w, tx_type = ''debit'',
                   status = ''Completada'', orderCode = None, details = None\<rparr> #
                 transactions_history p\<rparr>)"
    by (simp add: manage_approve(2))
  from a show "fst (admin_withdraw_manage now wid ''reject'' d) = Success"
    by (simp add: manage_reject(1))
  from a show "select_user (snd (admin_withdraw_manage now wid ''reject'' d)) (w_user_id w) =
        Some (p\<lparr>balance := balance p + amount_original w,
                transactions_history :=
                 \<lparr>tx_id = JNum (now + 2), amount = amount_original w, tx_type = ''credit'',
                   status = ''Completada'', orderCode = None, details = None\<rparr> #
                 transactions_history p\<rparr>)"
    by (simp add: manage_reject(2))
next
  assume a: "find (\<lambda>w. w_id w = wid \<and> w_user_id w = uid \<and> w_status w = ''Pending'') (withdrawals d) =
      Some w \<and> select_user d uid = Some usr"
  then show "fst (supplier_withdraw_cancel wid uid d) = Success"
    by (simp add: cancel_pending(1))
  from a show "withdrawals (snd (supplier_withdraw_cancel wid uid d)) =
        filter (\<lambda>x. w_id x \<noteq> wid) (withdrawals d)"
    by (simp add: cancel_pending(2))
  from a show "select_user (snd (supplier_withdraw_cancel wid uid d)) uid =
        Some (usr\<lparr>balance := balance usr + amount_original w\<rparr>)"
    by (simp add: cancel_pending(3))
qed

lemma demo_w_select [simp]:
  "select_user demo_w0 7 = Some (demo_provider 100)"
  "select_user demo_w1 7 = Some (demo_provider 0)"
  by (simp_all add: select_user_def demo_w0_def demo_w1_def)

lemma demo_w_pending [simp]:
  "\<not> has_pending_withdrawal demo_w0 7" "has_pending_withdrawal demo_w1 7"
  by (simp_all add: has_pending_withdrawal_def demo_w0_def demo_w1_def demo_hold_def)

lemma demo_round:
  "toFixed2 100 \<le> toFixed2 (balance (demo_provider 100))"
  "toFixed2 (balance (demo_provider 100)) < toFixed2 (10001 / 100)"
  "toFixed2 (100004 / 1000) \<le> toFixed2 (balance (demo_provider 100))"
  by code_simp+

text \<open>
  The scenario of the specification: 100 requested at 10 percent holds 100; approval books
  a debit of 90; rejection and cancellation give the 100 back.
\<close>

theorem withdrawal_workflow_witness:
  "fst (supplier_withdraw 7 100 demo_w0) = Success \<and>
   withdrawals (snd (supplier_withdraw 7 100 demo_w0)) = [demo_hold] \<and>
   select_user (snd (supplier_withdraw 7 100 demo_w0)) 7 = Some (demo_provider 0) \<and>
   supplier_withdraw 7 (10001 / 100) demo_w0 = (InsufficientBalance, demo_w0) \<and>
   supplier_withdraw 7 50 demo_w1 = (DuplicateRequest, demo_w1) \<and>
   select_user (snd (admin_withdraw_manage 5 1 ''approve'' demo_w1)) 7 =
     Some (demo_provider 0\<lparr>transactions_history :=
        [\<lparr>tx_id = JNum 6, amount = 90, tx_type = ''debit'', status = ''Completada'',
          orderCode = None, details = None\<rparr>]\<rparr>) \<and>
   select_user (snd (admin_withdraw_manage 5 1 ''reject'' demo_w1)) 7 =
     Some (demo_provider 100\<lparr>transactions_history :=
        [\<lparr>tx_id = JNum 7, amount = 100, tx_type = ''credit'', status = ''Completada'',
          orderCode = None, details = None\<rparr>]\<rparr>) \<and>
   withdrawals (snd (supplier_withdraw_cancel 1 7 demo_w1)) = [] \<and>
   select_user (snd (supplier_withdraw_cancel 1 7 demo_w1)) 7 = Some (demo_provider 100)"
proof -
  have f: "find (\<lambda>w. w_id w = 1) (withdrawals demo_w1) = Some demo_hold"
    "find (\<lambda>w. w_id w = 1 \<and> w_user_id w = 7 \<and> w_status w = ''Pending'') (withdrawals demo_w1) =
       Some demo_hold"
    "w_status demo_hold = ''Pending''" "w_user_id demo_hold = 7"
    by (simp_all add: demo_w1_def demo_hold_def)
  have h3: "0 < (100::rat) \<and> \<not> has_pending_withdrawal demo_w0 7 \<and>
      select_user demo_w0 7 = Some (demo_provider 100) \<and>
      toFixed2 100 \<le> toFixed2 (balance (demo_provider 100))"
    using demo_round(1) by simp
  have req: "fst (supplier_withdraw 7 100 demo_w0) = Success \<and>
      withdrawals (snd (supplier_withdraw 7 100 demo_w0)) = [demo_hold] \<and>
      select_user (snd (supplier_withdraw 7 100 demo_w0)) 7 = Some (demo_provider 0)"
    using withdrawal_workflow[where G = 100 and d = demo_w0 and uid = 7 and usr = "demo_provider 100",
        THEN conjunct2, THEN conjunct2, THEN conjunct1, rule_format, OF h3]
    by (simp add: demo_w0_def demo_hold_def demo_provider_def)
  have h2: "0 < (10001 / 100 :: rat) \<and> \<not> has_pending_withdrawal demo_w0 7 \<and>
      select_user demo_w0 7 = Some (demo_provider 100) \<and>
      toFixed2 (balance (demo_provider 100)) < toFixed2 (10001 / 100)"
    using demo_round(2) by simp
  have ins: "supplier_withdraw 7 (10001 / 100) demo_w0 = (InsufficientBalance, demo_w0)"
    using withdrawal_workflow[where G = "10001 / 100" and d = demo_w0 and uid = 7
        and usr = "demo_provider 100", THEN conjunct2, THEN conjunct1, rule_format, OF h2] .
  have h1: "0 < (50::rat) \<and> has_pending_withdrawal demo_w1 7" by simp
  have dup: "supplier_withdraw 7 50 demo_w1 = (DuplicateRequest, demo_w1)"
    using withdrawal_workflow[where G = 50 and d = demo_w1 and uid = 7,
        THEN conjunct1, rule_format, OF h1] .
  have h4: "find (\<lambda>w. w_id w = 1) (withdrawals demo_w1) = Some demo_hold \<and>
      w_status demo_hold = ''Pending'' \<and>
      select_user demo_w1 (w_user_id demo_hold) = Some (demo_provider 0)"
    using f by simp
  have man: "select_user (snd (admin_withdraw_manage 5 1 ''approve'' demo_w1)) 7 =
     Some (demo_provider 0\<lparr>transactions_history :=
        [\<lparr>tx_id = JNum 6, amount = 90, tx_type = ''debit'', status = ''Completada'',
          orderCode = None, details = None\<rparr>]\<rparr>) \<and>
   select_user (snd (admin_withdraw_manage 5 1 ''reject'' demo_w1)) 7 =
     Some (demo_provider 100\<lparr>transactions_history :=
        [\<lparr>tx_id = JNum 7, amount = 100, tx_type = ''credit'', status = ''Completada'',
          orderCode = None, details = None\<rparr>]\<rparr>)"
    using withdrawal_workflow[where d = demo_w1 and wid = 1 and w = demo_hold
        and p = "demo_provider 0" and now = 5,
        THEN conjunct2, THEN conjunct2, THEN conjunct2, THEN conjunct1, rule_format, OF h4]
    by (simp add: demo_hold_def demo_provider_def)
  have h5: "find (\<lambda>w. w_id w = 1 \<and> w_user_id w = 7 \<and> w_status w = ''Pending'')
        (withdrawals demo_w1) = Some demo_hold \<and> select_user demo_w1 7 = Some (demo_provider 0)"
    using f by simp
  have can: "withdrawals (snd (supplier_withdraw_cancel 1 7 demo_w1)) = [] \<and>
   select_user (snd (supplier_withdraw_cancel 1 7 demo_w1)) 7 = Some (demo_provider 100)"
    using withdrawal_workflow[where d = demo_w1 and wid = 1 and w = demo_hold and uid = 7
        and usr = "demo_provider 0",
        THEN conjunct2, THEN conjunct2, THEN conjunct2, THEN conjunct2, rule_format, OF h5]
    by (simp add: demo_hold_def demo_provider_def demo_w1_def)
  from req ins dup man can show ?thesis by blast
qed

text \<open>
  Claim C7, at the withdrawal request. The guard compares the two amounts after rounding to
  two decimals, the debit uses the unrounded amount: with a balance of 100 a request of
  100.004 passes the guard and leaves the balance at -0.004.
\<close>

theorem withdraw_overdraws:
  "select_user demo_w0 7 = Some (demo_provider 100) \<and> balance (demo_provider 100) = 100 \<and>
   fst (supplier_withdraw 7 (100004 / 1000) demo_w0) = Success \<and>
   select_user (snd (supplier_withdraw 7 (100004 / 1000) demo_w0)) 7 =
     Some (demo_provider (- (4 / 1000)))"
proof -
  have pos: "(0::rat) < 100004 / 1000" by simp
  note a = withdraw_accepted[OF pos demo_w_pending(1) demo_w_select(1) demo_round(3)]
  have "demo_provider 100\<lparr>balance := balance (demo_provider 100) - 100004 / 1000\<rparr> =
      demo_provider (- (4 / 1000))"
    by (simp add: demo_provider_def)
  with a show ?thesis by (simp add: demo_provider_def)
qed

section \<open>Properties of the purchase\<close>

lemma users_update_stock_row [simp]: "users (update_stock_row sid f d) = users d"
  by (simp add: update_stock_row_def)

lemma users_update_product [simp]: "users (update_product pid f d) = users d"
  by (simp add: update_product_def)

lemma products_update_stock_row [simp]: "products (update_stock_row sid f d) = products d"
  by (simp add: update_stock_row_def)

lemma insert_sold_copies_frame:
  "users (snd (insert_sold_copies k sc (c, d))) = users d \<and>
   products (snd (insert_sold_copies k sc (c, d))) = products d"
  by (induction k arbitrary: c d) simp_all

lemma sell_from_row_frame:
  "users (snd (snd (sell_from_row q pid prov uid price row st))) = users (snd (snd st)) \<and>
   products (snd (snd (sell_from_row q pid prov uid price row st))) = products (snd (snd st))"
  by (cases st) (simp add: sell_from_row_def Let_def insert_sold_copies_frame)

lemma allocate_frame:
  "users (snd (snd (allocate q pid prov uid price rows st))) = users (snd (snd st)) \<and>
   products (snd (snd (allocate q pid prov uid price rows st))) = products (snd (snd st))"
proof (induction q pid prov uid price rows st rule: allocate.induct)
  case (1 q pid prov uid price st)
  then show ?case by simp
next
  case (2 q pid prov uid price row rows c creds d)
  then show ?case
    using sell_from_row_frame[of q pid prov uid price row "(c, creds, d)"] by simp
qed


lemma select_user_update_product [simp]:
  "select_user (update_product pid f d) k = select_user d k"
  by (simp add: select_user_def)

text \<open>What the allocation collects, and when the purchase is short of stock.\<close>

lemma sell_from_row_collected:
  "fst (sell_from_row q pid prov uid price row (c, creds, d)) =
     (if availableInRow (data row) > q - c then q else c + availableInRow (data row))"
  by (simp add: sell_from_row_def Let_def)

lemma published_total_nonneg:
  "\<forall>r\<in>set rows. data_status (data r) \<noteq> ''Sin publicar'' \<longrightarrow> 0 < availableInRow (data r)
   \<Longrightarrow> 0 \<le> published_total rows"
  by (induction rows) (auto simp: published_total_def)

lemma allocate_collected:
  assumes "\<forall>r\<in>set rows. data_status (data r) \<noteq> ''Sin publicar'' \<longrightarrow> 0 < availableInRow (data r)"
    and "c \<le> q"
  shows "fst (allocate q pid prov uid price rows (c, creds, d)) = min q (c + published_total rows)"
  using assms
proof (induction rows arbitrary: c creds d)
  case Nil
  then show ?case by (simp add: published_total_def)
next
  case (Cons row rows)
  have nonneg: "0 \<le> published_total rows"
    using Cons.prems(1) by (intro published_total_nonneg) simp
  show ?case
  proof (cases "q \<le> c")
    case True
    then have "c = q" using Cons.prems(2) by simp
    moreover have "0 \<le> published_total (row # rows)"
      using Cons.prems(1) by (intro published_total_nonneg)
    ultimately show ?thesis by simp
  next
    case more: False
    show ?thesis
    proof (cases "data_status (data row) = ''Sin publicar''")
      case True
      then show ?thesis
        using more Cons.IH[of c creds d] Cons.prems by (simp add: published_total_def)
    next
      case pub: False
      obtain c' creds' d' where s: "sell_from_row q pid prov uid price row (c, creds, d) = (c', creds', d')"
        by (cases "sell_from_row q pid prov uid price row (c, creds, d)") auto
      have c': "c' = (if availableInRow (data row) > q - c then q else c + availableInRow (data row))"
        using sell_from_row_collected[of q pid prov uid price row c creds d] s by simp
      have le: "c' \<le> q" using c' by (simp split: if_splits)
      have "fst (allocate q pid prov uid price (row # rows) (c, creds, d)) =
          min q (c' + published_total rows)"
        using more pub s Cons.IH[of c' creds' d'] Cons.prems(1) le by simp
      also have "\<dots> = min q (c + published_total (row # rows))"
        using pub c' nonneg by (auto simp: published_total_def)
      finally show ?thesis .
    qed
  qed
qed

lemma published_total_snapshot:
  "published_total (filter (\<lambda>r. product_id r = pid \<and> \<not> is_sold r) (product_stock d)) =
     realStockCount d pid"
  by (simp add: published_total_def realStockCount_def conj_commute conj_left_commute)

lemma purchase_stock_guard:
  assumes "uid \<noteq> 0" "pname \<noteq> []" "select_user d uid = Some buyer" "A \<le> balance buyer"
    and "find (\<lambda>p. name p = pname \<and> platform p = platf) (products d) = Some product"
    and "\<forall>r\<in>set (product_stock d). 0 < availableInRow (data r)"
    and "0 \<le> N"
  shows "fst (user_purchase now txid uid pname platf A N deliv price d) = InsufficientStock
           \<longleftrightarrow> realStockCount d (prod_id product) < N"
proof -
  let ?rows = "filter (\<lambda>r. product_id r = prod_id product \<and> \<not> is_sold r) (product_stock d)"
  obtain c creds d1 where al:
    "allocate N (prod_id product) (creator_user_id product) uid price ?rows (0, [], d) = (c, creds, d1)"
    by (cases "allocate N (prod_id product) (creator_user_id product) uid price ?rows (0, [], d)") auto
  have "c = min N (0 + published_total ?rows)"
    using allocate_collected[of ?rows 0 N "prod_id product" "creator_user_id product" uid price "[]" d]
      assms(6,7) al by simp
  then have c: "c = min N (realStockCount d (prod_id product))"
    by (simp add: published_total_snapshot)
  show ?thesis
    using assms(1-5) al c
    by (auto simp: user_purchase_def Let_def split: option.splits)
qed

lemma purchase_failure_frame:
  assumes "fst (user_purchase now txid uid pname platf A N deliv price d) = InsufficientStock"
  shows "users (snd (user_purchase now txid uid pname platf A N deliv price d)) = users d \<and>
         products (snd (user_purchase now txid uid pname platf A N deliv price d)) = products d"
proof -
  have "\<And>q pid prov c creds d1 rows.
      allocate q pid prov uid price rows (0, [], d) = (c, creds, d1) \<Longrightarrow>
      users d1 = users d \<and> products d1 = products d"
    using allocate_frame by (metis snd_conv)
  then show ?thesis
    using assms
    by (auto simp: user_purchase_def Let_def split: if_splits option.splits prod.splits)
qed


lemma purchase_balance_not_negative:
  assumes "user_purchase now txid uid pname platf A N deliv price d = (Success, d')"
    and "select_user d uid = Some buyer"
  shows "balance buyer - A \<ge> 0"
  using assms by (auto simp: user_purchase_def Let_def split: if_splits option.splits prod.splits)

lemma demo_purchase:
  "user_purchase 0 ''#ORD-ABC123'' 2 ''Netflix'' ''Streaming'' 30 2 ''Autoentrega'' (Some 15)
     demo_shop = (Success, demo_sold)"
  by (simp add: user_purchase_def demo_shop_def demo_sold_def demo_market_def demo_person_def
      demo_product_def demo_row_def demo_order_def select_user_def update_user_def
      update_product_def update_stock_row_def sell_from_row_def availableInRow_def
      purchaseTx_def saleTx_def oneDay_def Let_def)

section \<open>Properties of the support and refund workflow\<close>

lemma demo_label_match: "durationMatch demo_label = Some ''30''"
  by (simp add: demo_label_def Dias_def match_here_def is_digit_def is_space_def)

lemma demo_total_days: "totalDays (Some demo_label) = 48"
  by (simp add: totalDays_def demo_label_match parseInt_digits_def digit_value_def)

lemma refund_day_10: "amountToRefund 864000000 30 0 (Some demo_label) = 95 / 4"
  by (simp add: amountToRefund_def demo_total_days oneDay_def Let_def) code_simp

lemma refund_day_10_later: "amountToRefund 864000001 30 0 (Some demo_label) = 95 / 4"
  by (simp add: amountToRefund_def demo_total_days oneDay_def Let_def) code_simp

lemma refund_day_31: "amountToRefund 2678400000 30 0 (Some demo_label) = 1063 / 100"
  by (simp add: amountToRefund_def demo_total_days oneDay_def Let_def) code_simp

lemma decimal_radix: "parseInt_digits 10 ''30'' = 30"
  by (simp add: parseInt_digits_def digit_value_def)

lemmas demo_defs =
  demo_market_def demo_person_def demo_product_def demo_row_def demo_order_def
  demo_ticket_order_def demo_after_def demo_restored_row_def

lemma round_again: "toFixed2 (95 / 4) = 95 / 4" "toFixed2 (95 / 2) = 95 / 2"
  by code_simp+

lemma trim_order_code: "trim ''#ORD-ABC123'' = ''#ORD-ABC123''"
  by (simp add: trim_def is_space_def)

lemma demo_send_to_support:
  "user_send_to_support ''000000'' 2 (JStr ''#ORD-ABC123'') ''no funciona'' demo_sold =
     (Success, demo_ticket)"
  by (simp add: user_send_to_support_def demo_sold_def demo_ticket_def demo_defs falsy_def
      select_user_def update_user_def support_match_def ensureOrderCode_def trim_order_code
      saleTx_def upper_char_def details_or_empty_def Let_def)

lemma demo_refund:
  "supplier_handle_support 864000000 (JStr ''#ORD-ABC123'') ''refund'' demo_ticket =
     (Success, demo_refunded)"
  by (simp add: supplier_handle_support_def demo_ticket_def demo_refunded_def demo_defs falsy_def
      select_user_def update_user_def update_product_def restore_stock_def updateTransaction_def
      details_or_empty_def refund_day_10 round_again saleTx_def Let_def)

lemma demo_send_again:
  "user_send_to_support ''000000'' 2 (JStr ''#ORD-ABC123'') ''otra vez'' demo_refunded =
     (Success, demo_ticket_again)"
  by (simp add: user_send_to_support_def demo_refunded_def demo_ticket_again_def demo_defs
      falsy_def select_user_def update_user_def support_match_def ensureOrderCode_def
      trim_order_code upper_char_def details_or_empty_def refundTx_def saleTx_def trim_def is_space_def
      dec_digits_small dec_digits_large digit_char_def Let_def)

lemma demo_refund_again:
  "supplier_handle_support 864000001 (JStr ''#ORD-ABC123'') ''refund'' demo_ticket_again =
     (Success, demo_refunded_twice)"
  by (simp add: supplier_handle_support_def demo_ticket_again_def demo_refunded_twice_def
      demo_defs falsy_def select_user_def update_user_def update_product_def restore_stock_def
      updateTransaction_def details_or_empty_def refundTx_def round_again saleTx_def
      refund_day_10_later Let_def)

lemma round_late: "toFixed2 (1063 / 100) = 1063 / 100"
  by code_simp


text \<open>
  Claim C1, at a request above the capacity. The pool holds three units in two rows; a
  request for four is answered with InsufficientStock, the users and the product counter
  are as before, but both rows are now marked sold: their updates were issued inside the
  loop, before the count was compared with the request.
\<close>

theorem purchase_insufficient_marks_sold:
  "realStockCount demo_shop 10 = 3 \<and>
   user_purchase 0 ''#ORD-ABC123'' 2 ''Netflix'' ''Streaming'' 30 4 ''Autoentrega'' (Some 15)
     demo_shop = (InsufficientStock, demo_lost) \<and>
   map is_sold (product_stock demo_shop) = [False, False] \<and>
   map is_sold (product_stock demo_lost) = [True, True] \<and>
   users demo_lost = users demo_shop \<and> products demo_lost = products demo_shop"
  by (simp add: user_purchase_def demo_shop_def demo_lost_def demo_market_def demo_person_def
      demo_product_def demo_row_def select_user_def update_stock_row_def sell_from_row_def
      availableInRow_def realStockCount_def Let_def)

text \<open>
  Claim C2, at the refund. After the purchase of two units the counter 1 equals the stock
  on sale. The refund puts the row of quantity 2 back on sale and raises the counter by the
  number of credentials, 1: the counter shows 2 while 3 units are on sale, which is what
  \<open>updateProductStock\<close> would store.
\<close>

theorem refund_counter_drifts:
  "stock (demo_product 1) = realStockCount demo_sold 10 \<and>
   user_send_to_support ''000000'' 2 (JStr ''#ORD-ABC123'') ''no funciona'' demo_sold =
     (Success, demo_ticket) \<and>
   supplier_handle_support 864000000 (JStr ''#ORD-ABC123'') ''refund'' demo_ticket =
     (Success, demo_refunded) \<and>
   map stock (products demo_refunded) = [2] \<and>
   realStockCount demo_refunded 10 = 3 \<and>
   products (updateProductStock 10 demo_refunded) = [demo_product 3]"
  using demo_send_to_support demo_refund
  by (simp add: demo_sold_def demo_refunded_def demo_defs realStockCount_def availableInRow_def
      updateProductStock_def update_product_def)

text \<open>
  Claim C3, at the label \<open>demo_label\<close>, which reads 30 and the word for days. The captured digits are read in base 16, so
  the duration is 48 days: ten days after a purchase of 30 the refund is 23.75, not 20.00,
  and 31 days after the purchase the refund is 10.63 instead of a refusal.
\<close>

theorem refund_reads_label_in_hex:
  "totalDays (Some demo_label) = 48 \<and>
   amountToRefund (10 * oneDay) 30 0 (Some demo_label) = 2375 / 100 \<and>
   supplier_handle_support (10 * oneDay) (JStr ''#ORD-ABC123'') ''refund'' demo_ticket =
     (Success, demo_refunded) \<and>
   map_option balance (select_user demo_ticket 2) = Some 0 \<and>
   map_option balance (select_user demo_refunded 2) = Some (2375 / 100) \<and>
   amountToRefund (31 * oneDay) 30 0 (Some demo_label) = 1063 / 100 \<and>
   supplier_handle_support (31 * oneDay) (JStr ''#ORD-ABC123'') ''refund'' demo_ticket =
     (Success, demo_refunded_late)"
proof -
  have late: "supplier_handle_support 2678400000 (JStr ''#ORD-ABC123'') ''refund'' demo_ticket =
     (Success, demo_refunded_late)"
    by (simp add: supplier_handle_support_def demo_ticket_def demo_refunded_late_def demo_defs
        falsy_def select_user_def update_user_def update_product_def restore_stock_def
        updateTransaction_def details_or_empty_def refund_day_31 round_late saleTx_def Let_def)
  have bal: "map_option balance (select_user demo_ticket 2) = Some 0"
    "map_option balance (select_user demo_refunded 2) = Some (2375 / 100)"
    by (simp_all add: demo_ticket_def demo_refunded_def demo_defs select_user_def)
  show ?thesis
    using demo_total_days refund_day_10 refund_day_31 demo_refund late bal
    by (simp add: oneDay_def)
qed

text \<open>
  Claim C8. An order in status \<^verbatim>\<open>Devuelto\<close> can be sent to support again, since that
  handler does not look at the status; it is then in \<^verbatim>\<open>Soporte\<close> and the refund of the
  support handler credits the buyer a second time: the balance goes from 0 to 23.75 and
  then to 47.50.
\<close>

theorem refunded_order_refunded_again:
  "supplier_handle_support 864000000 (JStr ''#ORD-ABC123'') ''refund'' demo_ticket =
     (Success, demo_refunded) \<and>
   map status (transactions_history (the (select_user demo_refunded 2))) =
     [''Completada'', ''Devuelto''] \<and>
   user_send_to_support ''000000'' 2 (JStr ''#ORD-ABC123'') ''otra vez'' demo_refunded =
     (Success, demo_ticket_again) \<and>
   supplier_handle_support 864000001 (JStr ''#ORD-ABC123'') ''refund'' demo_ticket_again =
     (Success, demo_refunded_twice) \<and>
   map_option balance (select_user demo_ticket 2) = Some 0 \<and>
   map_option balance (select_user demo_refunded 2) = Some (95 / 4) \<and>
   map_option balance (select_user demo_refunded_twice 2) = Some (95 / 2)"
  using demo_refund demo_send_again demo_refund_again
  by (simp add: demo_ticket_def demo_refunded_def demo_refunded_twice_def demo_defs
      select_user_def refundTx_def)

section \<open>Balances after a debit\<close>

text \<open>
  The purchase, the premium upgrade and the provider-side refund compare the balance with
  the amount as they are, so the balance they store is not negative. The withdrawal
  compares rounded values: the stored balance can fall below zero, by less than a cent,
  unless both amounts are whole cents.
\<close>

lemma upgrade_balance_not_negative:
  assumes "user_upgrade_to_premium addMonths now uid A months d = (Success, d')"
    and "select_user d uid = Some usr"
  shows "\<exists>usr'. select_user d' uid = Some usr' \<and> balance usr' = balance usr - A \<and>
           0 \<le> balance usr'"
  using assms
  by (auto simp: user_upgrade_to_premium_def Let_def select_update_user split: if_splits)

lemma proportional_refund_balance_not_negative:
  assumes "supplier_refund_proportional now buyerId txid A providerId d = (Success, d')"
    and "select_user d providerId = Some provider" and "providerId \<noteq> buyerId"
  shows "\<exists>p'. select_user d' providerId = Some p' \<and> balance p' = balance provider - A \<and>
           0 \<le> balance p'"
  using assms
  by (auto simp: supplier_refund_proportional_def Let_def select_update_user
      split: if_splits option.splits)

lemma toFixed2_near: "\<bar>toFixed2 x - x\<bar> \<le> 1 / 200"
proof -
  have *: "\<bar>of_int \<lfloor>y * 100 + 1 / 2\<rfloor> / 100 - y\<bar> \<le> 1 / 200" for y :: rat
  proof -
    define z :: rat where "z = of_int \<lfloor>y * 100 + 1 / 2\<rfloor>"
    have a: "z \<le> y * 100 + 1 / 2" and b: "y * 100 + 1 / 2 < z + 1"
      unfolding z_def by linarith+
    have "z / 100 - y \<le> 1 / 200" using a by linarith
    moreover have "- (1 / 200) \<le> z / 100 - y" using b by linarith
    ultimately show ?thesis unfolding z_def[symmetric] abs_le_iff by linarith
  qed
  show ?thesis
  proof (cases "x < 0")
    case True
    have "toFixed2 x - x = - (of_int \<lfloor>(- x) * 100 + 1 / 2\<rfloor> / 100 - (- x))"
      using True by (simp add: toFixed2_def)
    then have "\<bar>toFixed2 x - x\<bar> = \<bar>of_int \<lfloor>(- x) * 100 + 1 / 2\<rfloor> / 100 - (- x)\<bar>"
      by (simp only: abs_minus_cancel)
    then show ?thesis using *[of "- x"] by (simp only:)
  next
    case False
    then show ?thesis using *[of x] by (simp add: toFixed2_def)
  qed
qed

lemma withdraw_balance_bound:
  assumes "supplier_withdraw uid G d = (Success, d')" and "select_user d uid = Some usr"
  shows "\<exists>usr'. select_user d' uid = Some usr' \<and> balance usr' = balance usr - G \<and>
           - (1 / 100) \<le> balance usr' \<and>
           (toFixed2 G = G \<and> toFixed2 (balance usr) = balance usr \<longrightarrow> 0 \<le> balance usr')"
proof -
  have ok: "toFixed2 G \<le> toFixed2 (balance usr)"
    and d': "d' = update_user uid (\<lambda>u. u\<lparr>balance := balance usr - G\<rparr>)
                (insert_withdrawal uid G (G - G * fee_rate d) d)"
    using assms by (auto simp: supplier_withdraw_def Let_def split: if_splits)
  have sel: "select_user d' uid = Some (usr\<lparr>balance := balance usr - G\<rparr>)"
    unfolding d' using assms(2) by (simp add: select_update_user)
  have "- (1 / 100) \<le> balance usr - G"
    using ok toFixed2_near[of G] toFixed2_near[of "balance usr"] unfolding abs_le_iff by linarith
  moreover have "toFixed2 G = G \<and> toFixed2 (balance usr) = balance usr \<longrightarrow> 0 \<le> balance usr - G"
    using ok by auto
  ultimately show ?thesis using sel by simp
qed

end
